theory Spec2Isabelle
  imports Complex_Main
begin

section \<open>Watson mixture model: embedding of \<^verbatim>\<open>watson.py\<close>\<close>

text \<open>
  The arithmetic of the program is modelled over the real numbers. Where Python raises,
  the model returns the error as a value. Where NumPy would go on with \<open>inf\<close> or
  \<open>nan\<close> (a division by zero, a logarithm outside its domain) the model either
  carries the special value explicitly (the log-likelihood, type \<open>fnum\<close>) or stops
  with \<open>FloatingPointError\<close>, the exception NumPy raises for these operations under
  \<^verbatim>\<open>np.seterr(all='raise')\<close>: a run that continues with a non-finite parameter is not
  followed further. Rounding is not modelled. Of overflow, only that of the term of the
  series is modelled, as in NumPy's default error state (the program sets no other): the
  term becomes \<open>inf\<close>, and this decides whether the loop of the series ends.
  Progress messages (\<^verbatim>\<open>print_t\<close>) have no effect on any result and are left out.
\<close>

datatype py_error =
    ZeroDivisionError
  | IndexError
  | ValueError
  | AssertionError
  | LinAlgError
  | FloatingPointError

subsection \<open>Bound estimators (\<^verbatim>\<open>lower_bound\<close>, \<^verbatim>\<open>bound\<close>, \<^verbatim>\<open>upper_bound\<close>)\<close>

definition lower_bound :: "real \<Rightarrow> real \<Rightarrow> real \<Rightarrow> real" where
  "lower_bound a c r = (r * c - a) / (r * (1 - r)) * (1 + (1 - r) / (c - a))"

definition bound :: "real \<Rightarrow> real \<Rightarrow> real \<Rightarrow> real" where
  "bound a c r =
     (r * c - a) / (2 * r * (1 - r)) *
     (1 + sqrt (1 + (4 * (c + 1) * r * (1 - r)) / (a * (c - a))))"

definition upper_bound :: "real \<Rightarrow> real \<Rightarrow> real \<Rightarrow> real" where
  "upper_bound a c r = (r * c - a) / (r * (1 - r)) * (1 + r / a)"

subsection \<open>Series evaluator (\<^verbatim>\<open>kummer\<close>)\<close>

text \<open>The largest finite double, \<open>(2 - 2^-52) * 2^1023\<close>.\<close>

definition double_max :: real where
  "double_max = (2 - 1 / 2 ^ 52) * 2 ^ 1023"

text \<open>
  A term beyond \<open>double_max\<close> is \<open>inf\<close> in the program, and stays \<open>inf\<close> under the
  later multiplications: the test \<^verbatim>\<open>abs(term) > tol\<close> holds in every later pass and the
  loop does not end. Only when \<^verbatim>\<open>a\<close> or \<^verbatim>\<open>b\<close>, which grow by one in each pass, reach
  zero later can the loop still stop: at \<^verbatim>\<open>b = 0\<close> with \<^verbatim>\<open>ZeroDivisionError\<close>, at
  \<^verbatim>\<open>a = 0\<close> because the term becomes \<open>inf * 0 = nan\<close> and the result is \<open>nan\<close>. The
  arguments are the values of \<^verbatim>\<open>a\<close> and \<^verbatim>\<open>b\<close> in the pass that overflows.
  (The counter \<^verbatim>\<open>j\<close> is an unbounded integer, so the factor \<^verbatim>\<open>a*kappa/b/j\<close> would leave
  the range of the doubles only after more than \<open>10^300\<close> passes; no run gets there, and
  such a run counts as one that does not end.)
\<close>

definition is_neg_int :: "real \<Rightarrow> bool" where
  "is_neg_int x = (x < 0 \<and> of_int \<lfloor>x\<rfloor> = x)"

definition after_overflow :: "real \<Rightarrow> real \<Rightarrow> (py_error + real \<times> nat) option" where
  "after_overflow a b =
     (if is_neg_int b then
        (if is_neg_int a then
           (if a \<le> b then Some (Inl ZeroDivisionError) else Some (Inl FloatingPointError))
         else Some (Inl ZeroDivisionError))
      else if is_neg_int a then Some (Inl FloatingPointError)
      else None)"

text \<open>
  The \<^verbatim>\<open>while\<close> loop of \<^verbatim>\<open>kummer\<close> has no iteration cap, so it is a partial
  function: \<open>None\<close> is a run that never leaves the loop. The loop state is the tuple of
  the variables \<^verbatim>\<open>a\<close>, \<^verbatim>\<open>b\<close>, \<^verbatim>\<open>term\<close>, \<^verbatim>\<open>f\<close>, \<^verbatim>\<open>j\<close>. A division by
  \<^verbatim>\<open>b = 0\<close> raises \<^verbatim>\<open>ZeroDivisionError\<close> on Python floats.
\<close>

partial_function (option) kummer_loop ::
  "real \<Rightarrow> real \<Rightarrow> real \<Rightarrow> real \<Rightarrow> real \<Rightarrow> real \<Rightarrow> nat \<Rightarrow> (py_error + real \<times> nat) option" where
  "kummer_loop a b kappa tol trm f j =
     (if \<bar>trm\<bar> > tol then
        (let j' = j + 1; a' = a + 1; b' = b + 1 in
         if b' = 0 then Some (Inl ZeroDivisionError)
         else (let trm' = trm * (a' * kappa / b' / real j') in
               if \<bar>trm'\<bar> > double_max then after_overflow a' b'
               else kummer_loop a' b' kappa tol trm' (f + trm') j'))
      else Some (Inr (f, j)))"

text \<open>\<^verbatim>\<open>kummer(a, b, kappa, tol, return_iter=True)\<close>: the sum and the counter \<^verbatim>\<open>j\<close>.\<close>

definition kummer_iter :: "real \<Rightarrow> real \<Rightarrow> real \<Rightarrow> real \<Rightarrow> (py_error + real \<times> nat) option" where
  "kummer_iter a b kappa tol =
     (if b = 0 then Some (Inl ZeroDivisionError)
      else (let trm = a * kappa / b in
            if \<bar>trm\<bar> > double_max then after_overflow a b
            else kummer_loop a b kappa tol trm (1 + trm) 1))"

text \<open>\<^verbatim>\<open>kummer(a, b, kappa, tol)\<close> with \<^verbatim>\<open>return_iter=False\<close>: the sum alone.\<close>

definition kummer :: "real \<Rightarrow> real \<Rightarrow> real \<Rightarrow> real \<Rightarrow> (py_error + real) option" where
  "kummer a b kappa tol = map_option (map_sum id fst) (kummer_iter a b kappa tol)"

text \<open>
  The series as the specification describes it: term 0 is 1, and each later term is the
  previous one times \<open>(a_i * kappa) / (b_i * i)\<close>, with \<open>a_i\<close> and \<open>b_i\<close> incremented
  at each step and \<open>i\<close> the step index counted from 1.
\<close>

fun series_term :: "real \<Rightarrow> real \<Rightarrow> real \<Rightarrow> nat \<Rightarrow> real" where
  "series_term a b kappa 0 = 1"
| "series_term a b kappa (Suc i) =
     series_term a b kappa i * ((a + real i) * kappa / (b + real i) / real (Suc i))"

subsection \<open>Log-likelihood values and the convergence test\<close>

text \<open>
  The log-likelihood is a sum of logarithms and can be \<open>-inf\<close> or \<open>nan\<close> in a run that
  NumPy does not stop, so its values are reals extended by the IEEE special values.
\<close>

datatype fnum = Fin real | PInf | NInf | NaN

fun fneg :: "fnum \<Rightarrow> fnum" where
  "fneg (Fin x) = Fin (- x)"
| "fneg PInf = NInf"
| "fneg NInf = PInf"
| "fneg NaN = NaN"

fun fadd :: "fnum \<Rightarrow> fnum \<Rightarrow> fnum" where
  "fadd NaN _ = NaN"
| "fadd _ NaN = NaN"
| "fadd (Fin x) (Fin y) = Fin (x + y)"
| "fadd PInf NInf = NaN"
| "fadd NInf PInf = NaN"
| "fadd PInf _ = PInf"
| "fadd _ PInf = PInf"
| "fadd NInf _ = NInf"
| "fadd _ NInf = NInf"

definition fsub :: "fnum \<Rightarrow> fnum \<Rightarrow> fnum" where
  "fsub x y = fadd x (fneg y)"

text \<open>\<open>fdiv_abs x y\<close> is \<^verbatim>\<open>x / abs(y)\<close>: the divisor is never negative, nor minus zero.\<close>

fun fdiv_abs :: "fnum \<Rightarrow> fnum \<Rightarrow> fnum" where
  "fdiv_abs NaN _ = NaN"
| "fdiv_abs _ NaN = NaN"
| "fdiv_abs (Fin x) (Fin y) =
     (if y \<noteq> 0 then Fin (x / \<bar>y\<bar>)
      else if x > 0 then PInf else if x < 0 then NInf else NaN)"
| "fdiv_abs PInf (Fin y) = PInf"
| "fdiv_abs NInf (Fin y) = NInf"
| "fdiv_abs (Fin x) _ = Fin 0"
| "fdiv_abs _ _ = NaN"

text \<open>Comparisons with a real: every comparison with \<open>nan\<close> is false.\<close>

fun flt :: "fnum \<Rightarrow> real \<Rightarrow> bool" where
  "flt (Fin x) t = (x < t)"
| "flt NInf t = True"
| "flt PInf t = False"
| "flt NaN t = False"

fun fgt :: "fnum \<Rightarrow> real \<Rightarrow> bool" where
  "fgt (Fin x) t = (x > t)"
| "fgt PInf t = True"
| "fgt NInf t = False"
| "fgt NaN t = False"

text \<open>
  The relative change \<^verbatim>\<open>(llh[iter] - llh[iter-1]) / abs(llh[iter-1])\<close>.
\<close>

definition rel_change :: "fnum list \<Rightarrow> nat \<Rightarrow> fnum" where
  "rel_change llh iter =
     fdiv_abs (fsub (llh ! iter) (llh ! (iter - 1))) (llh ! (iter - 1))"

text \<open>
  \<^verbatim>\<open>convergence(llh, iter, maxiter, tol, verbose)\<close>. The loop counter \<^verbatim>\<open>iter\<close> is
  never negative; reading \<^verbatim>\<open>llh[iter]\<close> past the end raises \<^verbatim>\<open>IndexError\<close>.
  The result \<open>-1\<close> means "not converged".
\<close>

definition convergence :: "fnum list \<Rightarrow> nat \<Rightarrow> int \<Rightarrow> real \<Rightarrow> py_error + int" where
  "convergence llh iter maxiter tol =
     (if length llh \<le> iter then Inl IndexError
      else if iter > 0 \<and> flt (rel_change llh iter) tol then
        (if fgt (fsub (llh ! iter) (llh ! (iter - 1))) 0 then Inr (int iter)
         else Inr (int iter - 1))
      else if int iter \<ge> maxiter - 1 then Inr (int iter)
      else Inr (- 1))"

subsection \<open>Arrays\<close>

text \<open>
  A two-dimensional NumPy array is its number of columns and the list of its rows (an
  array with no rows still has a column count). One-dimensional arrays are lists.
\<close>

datatype array2 = Array2 (ncols: nat) (rows: "real list list")

definition wf_array2 :: "array2 \<Rightarrow> bool" where
  "wf_array2 A = list_all (\<lambda>r. length r = ncols A) (rows A)"

definition column :: "array2 \<Rightarrow> nat \<Rightarrow> real list" where
  "column A j = map (\<lambda>r. r ! j) (rows A)"

text \<open>
  NumPy broadcasting of two sizes of one axis: equal sizes, or one of them is 1.
  \<open>bc n xs\<close> stretches a list of length 1 to length \<open>n\<close>.
\<close>

definition bc_len :: "nat \<Rightarrow> nat \<Rightarrow> nat option" where
  "bc_len m n = (if m = n then Some n else if m = 1 then Some n else if n = 1 then Some m else None)"

definition bc :: "nat \<Rightarrow> 'a list \<Rightarrow> 'a list" where
  "bc n xs = (if length xs = n then xs else replicate n (hd xs))"

text \<open>
  An assignment \<^verbatim>\<open>dst[...] = src\<close> into a slot of \<open>n\<close> elements: the source must have
  \<open>n\<close> elements or one (which is repeated), otherwise NumPy raises \<^verbatim>\<open>ValueError\<close>.
\<close>

definition assign_bc :: "nat \<Rightarrow> 'a list \<Rightarrow> py_error + 'a list" where
  "assign_bc n src =
     (if length src = n then Inr src
      else if length src = 1 then Inr (replicate n (hd src))
      else Inl ValueError)"

subsection \<open>The numerical environment\<close>

text \<open>
  The library functions the program calls are parameters of the model:
  \<^verbatim>\<open>scipy.special.gamma\<close>, \<^verbatim>\<open>np.linalg.eig\<close> (eigenvalues \<open>w\<close> and the matrix \<open>v\<close> of
  eigenvectors, given by rows, both possibly complex), and the global generator of
  \<^verbatim>\<open>np.random\<close>: the state that \<^verbatim>\<open>np.random.seed(s)\<close> installs, one standard normal
  draw, and the states that seeding from the operating system's entropy yields.
\<close>

record 'g numlib =
  sp_gamma :: "real \<Rightarrow> real"
  la_eig :: "real list list \<Rightarrow> complex list \<times> complex list list"
  rng_init :: "int \<Rightarrow> 'g"
  rng_normal :: "'g \<Rightarrow> real \<times> 'g"
  os_entropy :: "nat \<Rightarrow> 'g"

text \<open>The mutable global state: the generator state and the number of entropy reads.\<close>

record 'g world =
  rng_state :: 'g
  entropy_reads :: nat

text \<open>
  \<^verbatim>\<open>np.random.seed(seed)\<close>: \<^verbatim>\<open>None\<close> reseeds from fresh entropy; an integer must lie
  in \<open>[0, 2^32)\<close>.
\<close>

definition np_random_seed ::
  "('g, 'x) numlib_scheme \<Rightarrow> int option \<Rightarrow> 'g world \<Rightarrow> py_error + 'g world" where
  "np_random_seed env seed w =
     (case seed of
        None \<Rightarrow> Inr (w\<lparr>rng_state := os_entropy env (entropy_reads w),
                        entropy_reads := Suc (entropy_reads w)\<rparr>)
      | Some s \<Rightarrow>
          if 0 \<le> s \<and> s < 2 ^ 32 then Inr (w\<lparr>rng_state := rng_init env s\<rparr>)
          else Inl ValueError)"

fun draws :: "('g \<Rightarrow> real \<times> 'g) \<Rightarrow> nat \<Rightarrow> 'g \<Rightarrow> real list \<times> 'g" where
  "draws nxt 0 g = ([], g)"
| "draws nxt (Suc n) g =
     (case nxt g of (x, g') \<Rightarrow> (case draws nxt n g' of (xs, g'') \<Rightarrow> (x # xs, g'')))"

subsection \<open>Initialisers (\<^verbatim>\<open>random_init\<close>, \<^verbatim>\<open>golden_spiral_init\<close>)\<close>

definition norm2 :: "real list \<Rightarrow> real" where
  "norm2 xs = sqrt (sum_list (map (\<lambda>x. x * x) xs))"

text \<open>
  \<^verbatim>\<open>random_init(k, p)\<close>: \<open>k * p\<close> normal draws, filled row by row, each row divided by
  its norm. A negative \<open>k\<close> is refused by \<^verbatim>\<open>np.random.normal\<close>. A nonempty row of zeros
  would be divided by zero.
\<close>

definition random_init ::
  "('g, 'x) numlib_scheme \<Rightarrow> 'g world \<Rightarrow> int \<Rightarrow> nat \<Rightarrow>
     (py_error + array2 \<times> real list \<times> real list) \<times> 'g world" where
  "random_init env w k p =
     (if k < 0 then (Inl ValueError, w)
      else
        (case draws (rng_normal env) (nat k * p) (rng_state w) of (xs, g') \<Rightarrow>
          (let w' = w\<lparr>rng_state := g'\<rparr>;
               raw = map (\<lambda>i. take p (drop (i * p) xs)) [0..<nat k]
           in if list_ex (\<lambda>r. r \<noteq> [] \<and> norm2 r = 0) raw then (Inl FloatingPointError, w')
              else
                (Inr (Array2 p (map (\<lambda>r. map (\<lambda>x. x / norm2 r) r) raw),
                      replicate (nat k) 1,
                      map (\<lambda>x. x / real_of_int k) (replicate (nat k) 1)), w'))))"

text \<open>
  \<^verbatim>\<open>golden_spiral_init(k)\<close>. For a negative \<open>k\<close> the index range is empty and
  \<^verbatim>\<open>np.ones(k)\<close> raises \<^verbatim>\<open>ValueError\<close>.
\<close>

definition golden_spiral_init :: "int \<Rightarrow> py_error + array2 \<times> real list \<times> real list" where
  "golden_spiral_init k =
     (let indices = map (\<lambda>i. real i + 0.5) [0..<nat k];
          phi = map (\<lambda>x. arccos (1 - 2 * x / (2 * real_of_int k))) indices;
          theta = map (\<lambda>x. pi * (1 + sqrt 5) * x) indices;
          mu = Array2 3 (map2 (\<lambda>t ph. [cos t * sin ph, sin t * sin ph, cos ph]) theta phi)
      in if k < 0 then Inl ValueError
         else Inr (mu, replicate (nat k) 1,
                   map (\<lambda>x. x / real_of_int k) (replicate (nat k) 1)))"

subsection \<open>Expectation step (\<^verbatim>\<open>e_step\<close>)\<close>

text \<open>
  \<^verbatim>\<open>np.einsum('i,ji->j', v, X)\<close>: the products of \<open>v\<close> with the rows of \<open>X\<close>. The axis
  \<open>i\<close> of the two operands must agree up to broadcasting.
\<close>

definition einsum_i_ji_j :: "real list \<Rightarrow> array2 \<Rightarrow> py_error + real list" where
  "einsum_i_ji_j v X =
     (case bc_len (length v) (ncols X) of
        None \<Rightarrow> Inl ValueError
      | Some n \<Rightarrow> Inr (map (\<lambda>x. sum_list (map2 (*) (bc n v) (bc n x))) (rows X)))"

fun flog :: "real \<Rightarrow> fnum" where
  "flog x = (if x > 0 then Fin (ln x) else if x = 0 then NInf else NaN)"

definition fsum :: "fnum list \<Rightarrow> fnum" where
  "fsum xs = foldr fadd xs (Fin 0)"

text \<open>
  One pass of the loop over the components: the column \<^verbatim>\<open>num[:, j]\<close>. The reads
  \<^verbatim>\<open>kappa[j]\<close>, \<^verbatim>\<open>pi[j]\<close>, \<^verbatim>\<open>mu[j, :]\<close> raise \<^verbatim>\<open>IndexError\<close> past the end. The
  series is called with its default tolerance \<open>1e-10\<close>, and here \<^verbatim>\<open>kappa[j]\<close> is a
  NumPy scalar: for \<open>p = 0\<close> the first division of the series, by \<open>b = 0\<close>, does not raise
  but gives \<open>nan\<close> when \<^verbatim>\<open>kappa[j]\<close> is zero (the series returns \<open>nan\<close> at once) and
  \<open>inf\<close> otherwise (the loop of the series never ends). A zero normalising denominator
  would give a non-finite \<^verbatim>\<open>cp\<close>.
\<close>

definition e_step_col ::
  "('g, 'x) numlib_scheme \<Rightarrow> array2 \<Rightarrow> array2 \<Rightarrow> real list \<Rightarrow> real list \<Rightarrow> nat \<Rightarrow> nat \<Rightarrow>
     (py_error + real list) option" where
  "e_step_col env X mu kappa pi_w p j =
     (if length kappa \<le> j then Some (Inl IndexError)
      else if p = 0 then (if kappa ! j = 0 then Some (Inl FloatingPointError) else None)
      else
        (case kummer (1 / 2) (real p / 2) (kappa ! j) (1 / 10 ^ 10) of
           None \<Rightarrow> None
         | Some (Inl e) \<Rightarrow> Some (Inl e)
         | Some (Inr km) \<Rightarrow>
             if 2 * pi powr (real p / 2) * km = 0 then Some (Inl FloatingPointError)
             else
               (let cp = sp_gamma env (real p / 2) / (2 * pi powr (real p / 2) * km) in
                if length pi_w \<le> j then Some (Inl IndexError)
                else if length (rows mu) \<le> j then Some (Inl IndexError)
                else
                  (case einsum_i_ji_j (rows mu ! j) X of
                     Inl e \<Rightarrow> Some (Inl e)
                   | Inr d \<Rightarrow>
                       Some (Inr (map (\<lambda>t. pi_w ! j * cp * exp (kappa ! j * t\<^sup>2)) d))))))"

fun e_step_cols ::
  "('g, 'x) numlib_scheme \<Rightarrow> array2 \<Rightarrow> array2 \<Rightarrow> real list \<Rightarrow> real list \<Rightarrow> nat \<Rightarrow> nat list \<Rightarrow>
     (py_error + real list list) option" where
  "e_step_cols env X mu kappa pi_w p [] = Some (Inr [])"
| "e_step_cols env X mu kappa pi_w p (j # js) =
     (case e_step_col env X mu kappa pi_w p j of
        None \<Rightarrow> None
      | Some (Inl e) \<Rightarrow> Some (Inl e)
      | Some (Inr col) \<Rightarrow>
          (case e_step_cols env X mu kappa pi_w p js of
             None \<Rightarrow> None
           | Some (Inl e) \<Rightarrow> Some (Inl e)
           | Some (Inr cols) \<Rightarrow> Some (Inr (col # cols))))"

text \<open>
  \<^verbatim>\<open>e_step(X, mu, kappa, pi, k, p)\<close> returns the responsibilities \<^verbatim>\<open>beta\<close> and the
  log-likelihood. \<^verbatim>\<open>np.zeros((N, k))\<close> refuses a negative \<open>k\<close>. A row of \<^verbatim>\<open>num\<close> that
  sums to zero makes its row of \<^verbatim>\<open>beta\<close> non-finite.
\<close>

definition e_step ::
  "('g, 'x) numlib_scheme \<Rightarrow> array2 \<Rightarrow> array2 \<Rightarrow> real list \<Rightarrow> real list \<Rightarrow> int \<Rightarrow> nat \<Rightarrow>
     (py_error + array2 \<times> fnum) option" where
  "e_step env X mu kappa pi_w k p =
     (if k < 0 then Some (Inl ValueError)
      else
        (case e_step_cols env X mu kappa pi_w p [0..<nat k] of
           None \<Rightarrow> None
         | Some (Inl e) \<Rightarrow> Some (Inl e)
         | Some (Inr cols) \<Rightarrow>
             (let num = map (\<lambda>i. map (\<lambda>col. col ! i) cols) [0..<length (rows X)];
                  tot = map sum_list num
              in if k > 0 \<and> list_ex (\<lambda>t. t = 0) tot then Some (Inl FloatingPointError)
                 else Some (Inr (Array2 (nat k) (map (\<lambda>r. map (\<lambda>x. x / sum_list r) r) num),
                                 fsum (map flog tot))))))"

subsection \<open>Maximization step (\<^verbatim>\<open>m_step\<close>)\<close>

text \<open>
  \<^verbatim>\<open>np.einsum('i,ij,ik->jk', b, X, X)\<close>: the weighted sum of the outer products of the
  rows of \<open>X\<close>.
\<close>

definition einsum_i_ij_ik_jk :: "real list \<Rightarrow> array2 \<Rightarrow> py_error + real list list" where
  "einsum_i_ij_ik_jk b X =
     (case bc_len (length b) (length (rows X)) of
        None \<Rightarrow> Inl ValueError
      | Some n \<Rightarrow>
          Inr (map (\<lambda>a. map (\<lambda>c. sum_list (map2 (\<lambda>w x. w * (x ! a) * (x ! c))
                                                (bc n b) (bc n (rows X))))
                             [0..<ncols X])
                   [0..<ncols X]))"

text \<open>
  \<^verbatim>\<open>np.argmax\<close> on a possibly complex array: the first index of the greatest element,
  complex numbers ordered by real part, then imaginary part; an empty array raises.
\<close>

definition cgt :: "complex \<Rightarrow> complex \<Rightarrow> bool" where
  "cgt x y = (Re x > Re y \<or> (Re x = Re y \<and> Im x > Im y))"

fun argmax_from :: "complex list \<Rightarrow> nat \<Rightarrow> nat \<Rightarrow> complex \<Rightarrow> nat" where
  "argmax_from [] i best bv = best"
| "argmax_from (x # xs) i best bv =
     (if cgt x bv then argmax_from xs (Suc i) i x else argmax_from xs (Suc i) best bv)"

definition argmax :: "complex list \<Rightarrow> py_error + nat" where
  "argmax w = (case w of [] \<Rightarrow> Inl ValueError | x # xs \<Rightarrow> Inr (argmax_from xs 1 0 x))"

text \<open>
  The triple \<^verbatim>\<open>[lower_bound(1/2, p/2, r), bound(1/2, p/2, r), upper_bound(1/2, p/2, r)]\<close>.
  A clamped \<open>r\<close> is the Python float \<open>0.99\<close>, and Python raises on the division by
  \<open>c - a = 0\<close>; an unclamped \<open>r\<close> is a NumPy scalar, and a zero divisor or a negative
  argument of the square root gives a non-finite value.
\<close>

definition bound_triple :: "bool \<Rightarrow> real \<Rightarrow> real \<Rightarrow> py_error + real list" where
  "bound_triple clamped c r =
     (if c - 1 / 2 = 0 then Inl (if clamped then ZeroDivisionError else FloatingPointError)
      else if r * (1 - r) = 0 then Inl FloatingPointError
      else if 1 + (4 * (c + 1) * r * (1 - r)) / (1 / 2 * (c - 1 / 2)) < 0 then Inl FloatingPointError
      else Inr [lower_bound (1 / 2) c r, bound (1 / 2) c r, upper_bound (1 / 2) c r])"

text \<open>
  One pass of the loop over the components. It returns the updated \<^verbatim>\<open>mu\<close>, the value
  of \<open>r\<close> handed to the bound estimators, and the row \<^verbatim>\<open>bounds[j, :]\<close>. A component
  whose responsibilities sum to zero has a non-finite scatter matrix, which
  \<^verbatim>\<open>np.linalg.eig\<close> refuses with \<^verbatim>\<open>LinAlgError\<close>.
\<close>

definition m_step_component ::
  "('g, 'x) numlib_scheme \<Rightarrow> array2 \<Rightarrow> array2 \<Rightarrow> nat \<Rightarrow> array2 \<Rightarrow> nat \<Rightarrow>
     py_error + array2 \<times> real \<times> real list" where
  "m_step_component env X beta p mu j =
     (if ncols beta \<le> j then Inl IndexError
      else
        (case einsum_i_ij_ik_jk (column beta j) X of
           Inl e \<Rightarrow> Inl e
         | Inr num \<Rightarrow>
             if ncols X > 0 \<and> sum_list (column beta j) = 0 then Inl LinAlgError
             else
               (case la_eig env (map (map (\<lambda>x. x / sum_list (column beta j))) num) of
                  (w, v) \<Rightarrow>
                    (case argmax w of
                       Inl e \<Rightarrow> Inl e
                     | Inr idx \<Rightarrow>
                         if length (rows mu) \<le> j then Inl IndexError
                         else
                           (case assign_bc (ncols mu) (map (\<lambda>row. Re (row ! idx)) v) of
                              Inl e \<Rightarrow> Inl e
                            | Inr new_row \<Rightarrow>
                                (let r0 = Re (w ! idx);
                                     r = (if r0 > 0.999 then 0.99 else r0)
                                 in case bound_triple (r0 > 0.999) (real p / 2) r of
                                      Inl e \<Rightarrow> Inl e
                                    | Inr brow \<Rightarrow>
                                        Inr (Array2 (ncols mu) ((rows mu)[j := new_row]),
                                             r, brow)))))))"

fun m_step_loop ::
  "('g, 'x) numlib_scheme \<Rightarrow> array2 \<Rightarrow> array2 \<Rightarrow> nat \<Rightarrow> array2 \<Rightarrow> nat list \<Rightarrow>
     py_error + array2 \<times> real list list" where
  "m_step_loop env X beta p mu [] = Inr (mu, [])"
| "m_step_loop env X beta p mu (j # js) =
     (case m_step_component env X beta p mu j of
        Inl e \<Rightarrow> Inl e
      | Inr (mu', r, brow) \<Rightarrow>
          (case m_step_loop env X beta p mu' js of
             Inl e \<Rightarrow> Inl e
           | Inr (mu'', brows) \<Rightarrow> Inr (mu'', brow # brows)))"

text \<open>
  \<^verbatim>\<open>m_step(X, mu, beta, k, N, p, gamma)\<close> returns \<^verbatim>\<open>(mu, kappa, pi, bounds)\<close>.
  \<^verbatim>\<open>np.zeros((k, 3))\<close> refuses a negative \<open>k\<close>; \<open>N\<close> is a number of points.
\<close>

definition m_step ::
  "('g, 'x) numlib_scheme \<Rightarrow> array2 \<Rightarrow> array2 \<Rightarrow> array2 \<Rightarrow> int \<Rightarrow> nat \<Rightarrow> nat \<Rightarrow> real \<Rightarrow>
     py_error + array2 \<times> real list \<times> real list \<times> real list list" where
  "m_step env X mu beta k N p gamma =
     (if k < 0 then Inl ValueError
      else if ncols beta > 0 \<and> N = 0 then Inl FloatingPointError
      else
        (let pi_w = map (\<lambda>j. sum_list (column beta j) / real N) [0..<ncols beta] in
         case m_step_loop env X beta p mu [0..<nat k] of
           Inl e \<Rightarrow> Inl e
         | Inr (mu', bounds) \<Rightarrow>
             (let means = map (\<lambda>c. sum_list (map (\<lambda>b. b ! c) bounds) / real (length bounds))
                              [0, 1, 2];
                  bounds' = map (\<lambda>b. map2 (\<lambda>x m. x + gamma * (m - x)) b means) bounds
              in Inr (mu', map (\<lambda>b. b ! 1) bounds', pi_w, bounds'))))"

subsection \<open>The fitting loop (\<^verbatim>\<open>wmm_fit\<close>)\<close>

text \<open>
  The argument \<^verbatim>\<open>init\<close>: absent, a string, or a dictionary with the entries
  \<^verbatim>\<open>'mu'\<close>, \<^verbatim>\<open>'kappa'\<close>, \<^verbatim>\<open>'pi'\<close>.
\<close>

datatype init_arg = InitNone | InitStr string | InitDict array2 "real list" "real list"

definition lower_char :: "char \<Rightarrow> char" where
  "lower_char c =
     (if 65 \<le> (of_char c :: nat) \<and> (of_char c :: nat) \<le> 90
      then char_of ((of_char c :: nat) + 32) else c)"

definition lower :: "string \<Rightarrow> string" where
  "lower s = map lower_char s"

text \<open>The initialisation branch of \<^verbatim>\<open>wmm_fit\<close> (the \<^verbatim>\<open>if\<close>/\<^verbatim>\<open>elif\<close> chain).\<close>

definition wmm_init ::
  "('g, 'x) numlib_scheme \<Rightarrow> 'g world \<Rightarrow> int \<Rightarrow> nat \<Rightarrow> init_arg \<Rightarrow>
     (py_error + array2 \<times> real list \<times> real list) \<times> 'g world" where
  "wmm_init env w k p init =
     (case init of
        InitDict mu kappa pi_w \<Rightarrow> (Inr (mu, kappa, pi_w), w)
      | InitStr s \<Rightarrow>
          if lower s = ''spiral'' then
            (if p = 3 then (golden_spiral_init k, w) else (Inl AssertionError, w))
          else if lower s = ''random'' then random_init env w k p
          else if p = 3 then (golden_spiral_init k, w)
          else random_init env w k p
      | InitNone \<Rightarrow>
          if p = 3 then (golden_spiral_init k, w) else random_init env w k p)"

text \<open>
  The variables of the loop: the current parameters, the log-likelihood buffer, the
  history buffers \<^verbatim>\<open>Mu\<close>, \<^verbatim>\<open>Kappa\<close>, \<^verbatim>\<open>Bounds\<close>, \<^verbatim>\<open>Pi\<close>, and the counter
  \<^verbatim>\<open>iter\<close>.
\<close>

record em_state =
  st_mu :: array2
  st_kappa :: "real list"
  st_pi :: "real list"
  st_llh :: "fnum list"
  hist_Mu :: "array2 list"
  hist_Kappa :: "real list list"
  hist_Bounds :: "real list list list"
  hist_Pi :: "real list list"
  st_iter :: nat

text \<open>
  One pass through the body of the \<^verbatim>\<open>while\<close> loop; it returns the new state and the
  value of \<^verbatim>\<open>converged\<close>. Storing \<^verbatim>\<open>llh[iter]\<close> past the end of the buffer raises
  \<^verbatim>\<open>IndexError\<close>; the stores into the history buffers follow the broadcasting rule
  (\<^verbatim>\<open>mu\<close> keeps its shape, so its store always fits).
\<close>

definition em_iteration ::
  "('g, 'x) numlib_scheme \<Rightarrow> array2 \<Rightarrow> int \<Rightarrow> nat \<Rightarrow> nat \<Rightarrow> real \<Rightarrow> int \<Rightarrow> real \<Rightarrow> em_state \<Rightarrow>
     (py_error + em_state \<times> int) option" where
  "em_iteration env X k N p gamma maxiter tol st =
     (case e_step env X (st_mu st) (st_kappa st) (st_pi st) k p of
        None \<Rightarrow> None
      | Some (Inl e) \<Rightarrow> Some (Inl e)
      | Some (Inr (beta, l)) \<Rightarrow>
          if length (st_llh st) \<le> st_iter st then Some (Inl IndexError)
          else
            (case m_step env X (st_mu st) beta k N p gamma of
               Inl e \<Rightarrow> Some (Inl e)
             | Inr (mu', kappa', pi', bounds') \<Rightarrow>
                 (case convergence ((st_llh st)[st_iter st := l]) (st_iter st) maxiter tol of
                    Inl e \<Rightarrow> Some (Inl e)
                  | Inr conv \<Rightarrow>
                      (case assign_bc (length (hist_Kappa st ! st_iter st)) kappa' of
                         Inl e \<Rightarrow> Some (Inl e)
                       | Inr kslot \<Rightarrow>
                           (case assign_bc (length (hist_Bounds st ! st_iter st)) bounds' of
                              Inl e \<Rightarrow> Some (Inl e)
                            | Inr bslot \<Rightarrow>
                                (case assign_bc (length (hist_Pi st ! st_iter st)) pi' of
                                   Inl e \<Rightarrow> Some (Inl e)
                                 | Inr pslot \<Rightarrow>
                                     Some (Inr
                                       (st\<lparr>st_mu := mu', st_kappa := kappa', st_pi := pi',
                                           st_llh := (st_llh st)[st_iter st := l],
                                           hist_Mu := (hist_Mu st)[st_iter st := mu'],
                                           hist_Kappa := (hist_Kappa st)[st_iter st := kslot],
                                           hist_Bounds := (hist_Bounds st)[st_iter st := bslot],
                                           hist_Pi := (hist_Pi st)[st_iter st := pslot],
                                           st_iter := st_iter st + 1\<rparr>, conv))))))))"

text \<open>\<^verbatim>\<open>while converged < 0\<close>: the loop ends with the state and \<^verbatim>\<open>converged\<close>.\<close>

function em_loop ::
  "('g, 'x) numlib_scheme \<Rightarrow> array2 \<Rightarrow> int \<Rightarrow> nat \<Rightarrow> nat \<Rightarrow> real \<Rightarrow> int \<Rightarrow> real \<Rightarrow> em_state \<Rightarrow>
     (py_error + em_state \<times> int) option" where
  "em_loop env X k N p gamma maxiter tol st =
     (case em_iteration env X k N p gamma maxiter tol st of
        None \<Rightarrow> None
      | Some (Inl e) \<Rightarrow> Some (Inl e)
      | Some (Inr (st', conv)) \<Rightarrow>
          if conv < 0 then em_loop env X k N p gamma maxiter tol st'
          else Some (Inr (st', conv)))"
  by pat_completeness auto
termination
proof (relation "measure (\<lambda>(env, X, k, N, p, gamma, maxiter, tol, st). nat (maxiter - int (st_iter st)))")
  show "wf (measure (\<lambda>(env :: ('g, 'x) numlib_scheme, X :: array2, k :: int, N :: nat, p :: nat,
                       gamma :: real, maxiter, tol :: real, st). nat (maxiter - int (st_iter st))))"
    by simp
next
  fix env :: "('g, 'x) numlib_scheme" and X k N p gamma maxiter tol st x2 b st' conv
  assume it: "em_iteration env X k N p gamma maxiter tol st = Some x2"
    and x2: "x2 = Inr b" and b: "(st', conv) = b" and neg: "conv < (0::int)"
  from it x2 b have run: "em_iteration env X k N p gamma maxiter tol st = Some (Inr (st', conv))"
    by simp
  then obtain llh' where cv: "convergence llh' (st_iter st) maxiter tol = Inr conv"
    and nx: "st_iter st' = st_iter st + 1"
    unfolding em_iteration_def
    by (auto split: option.splits sum.splits prod.splits if_splits)
  from cv neg have "int (st_iter st) < maxiter - 1"
    unfolding convergence_def by (auto split: if_splits)
  with nx show "((env, X, k, N, p, gamma, maxiter, tol, st'), (env, X, k, N, p, gamma, maxiter, tol, st))
      \<in> measure (\<lambda>(env, X, k, N, p, gamma, maxiter, tol, st). nat (maxiter - int (st_iter st)))"
    by simp
qed

declare em_loop.simps [simp del]

text \<open>
  \<^verbatim>\<open>wmm_fit\<close> from its first statement to the end of the loop, with the global state
  passed in and returned: reseeding of the global generator, initialisation, allocation
  of the buffers (\<^verbatim>\<open>np.zeros\<close> refuses a negative \<^verbatim>\<open>maxiter\<close>), and the loop. The
  result is the final loop state and \<^verbatim>\<open>converged\<close>.
\<close>

definition wmm_fit_run ::
  "('g, 'x) numlib_scheme \<Rightarrow> 'g world \<Rightarrow> array2 \<Rightarrow> int \<Rightarrow> int \<Rightarrow> real \<Rightarrow> int option \<Rightarrow>
     init_arg \<Rightarrow> real \<Rightarrow> (py_error + em_state \<times> int) option \<times> 'g world" where
  "wmm_fit_run env w X k maxiter tol seed init gamma =
     (case np_random_seed env seed w of
        Inl e \<Rightarrow> (Some (Inl e), w)
      | Inr w1 \<Rightarrow>
          (let N = length (rows X); p = ncols X in
           case wmm_init env w1 k p init of
             (Inl e, w2) \<Rightarrow> (Some (Inl e), w2)
           | (Inr (mu, kappa, pi_w), w2) \<Rightarrow>
               if maxiter < 0 then (Some (Inl ValueError), w2)
               else
                 (let m = nat maxiter;
                      st0 = \<lparr>st_mu = mu, st_kappa = kappa, st_pi = pi_w,
                             st_llh = replicate m (Fin 0),
                             hist_Mu = replicate m
                               (Array2 (ncols mu) (map (map (\<lambda>x. 0)) (rows mu))),
                             hist_Kappa = replicate m (map (\<lambda>x. 0) kappa),
                             hist_Bounds = replicate m (map (\<lambda>x. [0, 0, 0]) kappa),
                             hist_Pi = replicate m (map (\<lambda>x. 0) pi_w),
                             st_iter = 0\<rparr>
                  in (em_loop env X k N p gamma maxiter tol st0, w2))))"

text \<open>What \<^verbatim>\<open>wmm_fit\<close> returns: every snapshot, or the one at \<^verbatim>\<open>converged\<close>.\<close>

datatype fit_result =
    Steps "array2 list" "real list list" "real list list" "fnum list" "real list list list"
  | Final array2 "real list" "real list" "fnum list" "real list list"

text \<open>
  \<^verbatim>\<open>wmm_fit(X, k, maxiter, tol, verbose, seed, init, return_steps, gamma)\<close>: the run
  above, then the trimming of the buffers to \<^verbatim>\<open>converged + 1\<close> entries.
\<close>

definition wmm_fit ::
  "('g, 'x) numlib_scheme \<Rightarrow> 'g world \<Rightarrow> array2 \<Rightarrow> int \<Rightarrow> int \<Rightarrow> real \<Rightarrow> int option \<Rightarrow>
     init_arg \<Rightarrow> bool \<Rightarrow> real \<Rightarrow> (py_error + fit_result) option \<times> 'g world" where
  "wmm_fit env w X k maxiter tol seed init return_steps gamma =
     (case wmm_fit_run env w X k maxiter tol seed init gamma of
        (None, w') \<Rightarrow> (None, w')
      | (Some (Inl e), w') \<Rightarrow> (Some (Inl e), w')
      | (Some (Inr (st, converged)), w') \<Rightarrow>
          (let c = nat converged;
               llh = take (c + 1) (st_llh st)
           in if return_steps then
                (Some (Inr (Steps (take (c + 1) (hist_Mu st))
                                  (take (c + 1) (hist_Kappa st))
                                  (take (c + 1) (hist_Pi st))
                                  llh
                                  (take (c + 1) (hist_Bounds st)))), w')
              else
                (Some (Inr (Final (hist_Mu st ! c) (hist_Kappa st ! c)
                                  (hist_Pi st ! c) llh
                                  (hist_Bounds st ! c))), w')))"

subsection \<open>A concrete environment\<close>

text \<open>
  An environment to run the model on examples: the gamma function at the half-integers
  \<open>p / 2\<close> (\<open>\<Gamma>(1/2) = sqrt pi\<close>, \<open>\<Gamma>(1) = 1\<close>, \<open>\<Gamma>(x + 1) = x \<Gamma>(x)\<close>), the
  eigendecomposition of a diagonal matrix (its diagonal, and the unit vectors), and a
  linear congruential generator in place of NumPy's.
\<close>

fun gamma_half :: "nat \<Rightarrow> real" where
  "gamma_half 0 = 0"
| "gamma_half (Suc 0) = sqrt pi"
| "gamma_half (Suc (Suc 0)) = 1"
| "gamma_half (Suc (Suc n)) = real n / 2 * gamma_half n"

definition eig_diagonal :: "real list list \<Rightarrow> complex list \<times> complex list list" where
  "eig_diagonal S =
     (map (\<lambda>i. complex_of_real (S ! i ! i)) [0..<length S],
      map (\<lambda>i. map (\<lambda>j. if i = j then 1 else 0) [0..<length S]) [0..<length S])"

definition example_env :: "nat numlib" where
  "example_env =
     \<lparr>sp_gamma = (\<lambda>x. gamma_half (nat \<lfloor>2 * x\<rfloor>)),
      la_eig = eig_diagonal,
      rng_init = (\<lambda>s. nat s),
      rng_normal = (\<lambda>g. ((real (g mod 201) - 100) / 50, (1103515245 * g + 12345) mod 2 ^ 31)),
      os_entropy = (\<lambda>n. n)\<rparr>"

text \<open>
  The loop state of a run with no components (\<open>k = 0\<close>), three-dimensional data and two
  buffer slots: every parameter array is empty.
\<close>

definition st_k0 :: "nat \<Rightarrow> fnum list \<Rightarrow> em_state" where
  "st_k0 i l = \<lparr>st_mu = Array2 3 [], st_kappa = [], st_pi = [], st_llh = l,
      hist_Mu = [Array2 3 [], Array2 3 []], hist_Kappa = [[], []], hist_Bounds = [[], []],
      hist_Pi = [[], []], st_iter = i\<rparr>"

section \<open>Properties\<close>

subsection \<open>Bound estimators\<close>

lemma ratio_minus_lower:
  fixes a c r :: real
  assumes "0 < a" "a < c"
  shows "(c + 1) * (r / a) - (1 + (1 - r) / (c - a)) = (r * c - a) * (c - a + 1) / (a * (c - a))"
  using assms by (simp add: field_simps)

lemma ratio_minus_upper:
  fixes a c r :: real
  assumes "0 < a" "a < c"
  shows "(c + 1) * ((1 - r) / (c - a)) - (1 + r / a) = (a - r * c) * (1 + a) / (a * (c - a))"
  using assms by (simp add: field_simps)

lemma sqrt_arg:
  fixes a c r :: real
  assumes "0 < a" "a < c"
  shows "1 + (4 * (c + 1) * r * (1 - r)) / (a * (c - a)) =
         1 + 4 * (c + 1) * (r / a) * ((1 - r) / (c - a))"
  using assms by (simp add: field_simps)

lemma sqrt_lower_est:
  fixes t q :: real
  assumes "0 \<le> t" "t * (1 + t) \<le> q"
  shows "1 + 2 * t \<le> sqrt (1 + 4 * q)"
proof (rule real_le_rsqrt)
  have "(1 + 2 * t)\<^sup>2 = 1 + 4 * (t * (1 + t))" by (simp add: power2_eq_square algebra_simps)
  also have "\<dots> \<le> 1 + 4 * q" using assms(2) by simp
  finally show "(1 + 2 * t)\<^sup>2 \<le> 1 + 4 * q" .
qed

lemma sqrt_upper_est:
  fixes t q :: real
  assumes "0 \<le> t" "q \<le> t * (1 + t)"
  shows "sqrt (1 + 4 * q) \<le> 1 + 2 * t"
proof (rule real_le_lsqrt)
  show "0 \<le> 1 + 2 * t" using assms(1) by simp
  have "1 + 4 * q \<le> 1 + 4 * (t * (1 + t))" using assms(2) by simp
  also have "\<dots> = (1 + 2 * t)\<^sup>2" by (simp add: power2_eq_square algebra_simps)
  finally show "1 + 4 * q \<le> (1 + 2 * t)\<^sup>2" .
qed

text \<open>
  With \<open>x = r / a\<close> and \<open>y = (1 - r) / (c - a)\<close> the three estimators are the common
  factor \<open>F = (r c - a) / (r (1 - r))\<close> times \<open>1 + y\<close>, \<open>(1 + s) / 2\<close> and \<open>1 + x\<close>, where
  \<open>s\<close> is the square root. The order of the three factors flips with the sign of
  \<open>r c - a\<close>, and so does the sign of \<open>F\<close>.
\<close>

lemma estimators_ordered_unit_interval:
  fixes a c r :: real
  assumes r: "0 < r" "r < 1" and ac: "0 < a" "a < c"
  shows "lower_bound a c r \<le> bound a c r \<and> bound a c r \<le> upper_bound a c r"
proof -
  define x where "x = r / a"
  define y where "y = (1 - r) / (c - a)"
  define q where "q = (c + 1) * x * y"
  define s where "s = sqrt (1 + 4 * q)"
  define F where "F = (r * c - a) / (r * (1 - r))"
  have x0: "0 < x" and y0: "0 < y" using r ac by (simp_all add: x_def y_def)
  have dl: "(c + 1) * x - (1 + y) = (r * c - a) * (c - a + 1) / (a * (c - a))"
    unfolding x_def y_def by (rule ratio_minus_lower [OF ac])
  have du: "(c + 1) * y - (1 + x) = (a - r * c) * (1 + a) / (a * (c - a))"
    unfolding x_def y_def by (rule ratio_minus_upper [OF ac])
  have qy: "q - y * (1 + y) = y * ((c + 1) * x - (1 + y))" by (simp add: q_def algebra_simps)
  have qx: "q - x * (1 + x) = x * ((c + 1) * y - (1 + x))" by (simp add: q_def algebra_simps)
  have lo: "lower_bound a c r = F * (1 + y)" by (simp add: lower_bound_def F_def y_def)
  have up: "upper_bound a c r = F * (1 + x)" by (simp add: upper_bound_def F_def x_def)
  have "1 + (4 * (c + 1) * r * (1 - r)) / (a * (c - a)) = 1 + 4 * q"
    unfolding q_def x_def y_def using sqrt_arg [OF ac, of r] by (simp add: mult.assoc)
  then have mid: "bound a c r = F * ((1 + s) / 2)"
    by (simp add: bound_def F_def s_def)
  show ?thesis
  proof (cases "a \<le> r * c")
    case True
    then have F0: "0 \<le> F" using r by (simp add: F_def)
    have "0 \<le> (c + 1) * x - (1 + y)" unfolding dl using True ac by simp
    then have "0 \<le> q - y * (1 + y)" unfolding qy using y0 by simp
    then have s1: "1 + 2 * y \<le> s" unfolding s_def using y0 by (intro sqrt_lower_est) simp_all
    have "(c + 1) * y - (1 + x) \<le> 0" unfolding du using True ac
      by (simp add: divide_nonpos_pos mult_nonpos_nonneg)
    then have "q - x * (1 + x) \<le> 0" unfolding qx using x0 by (simp add: mult_nonneg_nonpos)
    then have s2: "s \<le> 1 + 2 * x" unfolding s_def using x0 by (intro sqrt_upper_est) simp_all
    have "F * (1 + y) \<le> F * ((1 + s) / 2)" using s1 F0 by (intro mult_left_mono) simp_all
    moreover have "F * ((1 + s) / 2) \<le> F * (1 + x)" using s2 F0 by (intro mult_left_mono) simp_all
    ultimately show ?thesis by (simp only: lo up mid)
  next
    case False
    then have F0: "F \<le> 0" using r by (simp add: F_def divide_nonpos_pos)
    have "(c + 1) * x - (1 + y) \<le> 0" unfolding dl using False ac
      by (simp add: divide_nonpos_pos mult_nonpos_nonneg)
    then have "q - y * (1 + y) \<le> 0" unfolding qy using y0 by (simp add: mult_nonneg_nonpos)
    then have s1: "s \<le> 1 + 2 * y" unfolding s_def using y0 by (intro sqrt_upper_est) simp_all
    have "0 \<le> (c + 1) * y - (1 + x)" unfolding du using False ac by simp
    then have "0 \<le> q - x * (1 + x)" unfolding qx using x0 by simp
    then have s2: "1 + 2 * x \<le> s" unfolding s_def using x0 by (intro sqrt_lower_est) simp_all
    have "F * (1 + y) \<le> F * ((1 + s) / 2)" using s1 F0 by (intro mult_left_mono_neg) simp_all
    moreover have "F * ((1 + s) / 2) \<le> F * (1 + x)" using s2 F0 by (intro mult_left_mono_neg) simp_all
    ultimately show ?thesis by (simp only: lo up mid)
  qed
qed

text \<open>
  Claim C3. For every real \<open>r\<close> with \<open>0 < r < 0.99\<close> and all shape parameters with
  \<open>c > a > 0\<close>, the three bound estimators are ordered:
  \<open>lower_bound a c r \<le> bound a c r \<le> upper_bound a c r\<close>.
\<close>

theorem bounds_ordered:
  fixes a c r :: real
  assumes "0 < r" "r < 0.99" "0 < a" "a < c"
  shows "lower_bound a c r \<le> bound a c r \<and> bound a c r \<le> upper_bound a c r"
  using assms by (intro estimators_ordered_unit_interval) simp_all

theorem bounds_ordered_witness:
  "lower_bound (1 / 2) (3 / 2) (1 / 2) \<le> bound (1 / 2) (3 / 2) (1 / 2) \<and>
   bound (1 / 2) (3 / 2) (1 / 2) \<le> upper_bound (1 / 2) (3 / 2) (1 / 2)"
  using bounds_ordered [of "1 / 2" "1 / 2" "3 / 2"] by simp

subsection \<open>Convergence test\<close>

text \<open>
  Claim C1, as stated: whenever the relative change is below the tolerance and the change
  is non-negative, zero included, the test answers with the current iteration. It fails
  for a change of exactly zero: with the log-likelihoods \<open>-2, -1, -1\<close> the test at
  iteration 2 answers 1, the previous iteration.
\<close>

theorem convergence_zero_change_counterexample:
  "((- 1) - (- 1)) / \<bar>- 1\<bar> < (1 / 10 ^ 4 :: real) \<and> (0 :: real) \<le> (- 1) - (- 1) \<and>
   convergence [Fin (- 2), Fin (- 1), Fin (- 1)] 2 200 (1 / 10 ^ 4) \<noteq> Inr 2 \<and>
   convergence [Fin (- 2), Fin (- 1), Fin (- 1)] 2 200 (1 / 10 ^ 4) = Inr 1"
  by (simp add: convergence_def rel_change_def fsub_def)

text \<open>
  Claim C1, amended. At an iteration \<open>i > 0\<close> with finite log-likelihoods and a relative
  change \<open>(llh[i] - llh[i-1]) / \<bar>llh[i-1]\<bar>\<close> below the tolerance, the test answers \<open>i\<close>
  when the change is strictly positive, and \<open>i - 1\<close> when the change is zero or negative.
\<close>

theorem convergence_below_tolerance:
  assumes "0 < iter" "iter < length llh"
    and "llh ! iter = Fin cur" "llh ! (iter - 1) = Fin prev" "prev \<noteq> 0"
    and "(cur - prev) / \<bar>prev\<bar> < tol"
  shows "convergence llh iter maxiter tol =
           Inr (if cur - prev > 0 then int iter else int iter - 1)"
  using assms by (simp add: convergence_def rel_change_def fsub_def)

theorem convergence_below_tolerance_witness:
  "convergence [Fin (- 2), Fin (- 1), Fin (- 1)] 2 200 (1 / 10 ^ 4) = Inr 1 \<and>
   convergence [Fin (- 100000), Fin (- 99999)] 1 200 (1 / 10 ^ 4) = Inr 1"
  using convergence_below_tolerance
      [of 2 "[Fin (- 2), Fin (- 1), Fin (- 1)]" "- 1" "- 1" "1 / 10 ^ 4" 200]
    convergence_below_tolerance
      [of 1 "[Fin (- 100000), Fin (- 99999)]" "- 99999" "- 100000" "1 / 10 ^ 4" 200]
  by simp

subsection \<open>Golden-spiral initialiser\<close>

lemma arccos_upper_hemisphere:
  assumes "0 < y" "y < 1"
  shows "0 < arccos y \<and> arccos y < pi / 2 \<and> cos (arccos y) = y"
proof -
  have "0 < arccos y" using arccos_lt_bounded [of y] assms by simp
  moreover have "arccos y < arccos 0" using assms by (intro arccos_less_arccos) simp_all
  moreover have "cos (arccos y) = y" using assms by (intro cos_arccos) simp_all
  ultimately show ?thesis by (simp add: arccos_0)
qed

text \<open>
  Claim C2, as stated: the \<open>i\<close>-th direction has the polar angle
  \<open>arccos (1 - 2 (i + 0.5) / k)\<close>, so that the directions cover the whole sphere. It
  fails already for \<open>k = 1\<close>: the claim puts the single direction on the equator
  (third coordinate 0), the program returns the third coordinate \<open>1 / 2\<close>.
\<close>

theorem golden_spiral_hemisphere_counterexample:
  "golden_spiral_init 1 \<noteq>
     Inr (Array2 3 [[cos (pi * (1 + sqrt 5) * (0 + 0.5)) * sin (arccos (1 - 2 * (0 + 0.5) / 1)),
                     sin (pi * (1 + sqrt 5) * (0 + 0.5)) * sin (arccos (1 - 2 * (0 + 0.5) / 1)),
                     cos (arccos (1 - 2 * (0 + 0.5) / 1))]], [1], [1]) \<and>
   rows (fst (projr (golden_spiral_init 1))) ! 0 ! 2 = 1 / 2 \<and>
   cos (arccos (1 - 2 * (0 + 0.5) / 1)) = (0 :: real)"
  by (simp add: golden_spiral_init_def Let_def cos_60)

text \<open>
  Claim C2, amended. For every \<open>k \<ge> 1\<close> the initialiser places the \<open>i\<close>-th mean
  direction (\<open>i = 0..k-1\<close>) at the polar angle \<open>arccos (1 - (i + 0.5) / k)\<close> and the
  azimuth \<open>pi (1 + sqrt 5) (i + 0.5)\<close>, converted to Cartesian coordinates. The polar
  angles lie in \<open>(0, pi / 2)\<close>: every direction has a positive third coordinate
  \<open>1 - (i + 0.5) / k\<close>, so the directions cover one hemisphere.
\<close>

theorem golden_spiral_directions:
  assumes "1 \<le> k" "i < nat k"
  shows "\<exists>mu kappa pw.
           golden_spiral_init k = Inr (mu, kappa, pw) \<and>
           ncols mu = 3 \<and> length (rows mu) = nat k \<and>
           rows mu ! i =
             [cos (pi * (1 + sqrt 5) * (real i + 0.5)) * sin (arccos (1 - (real i + 0.5) / real_of_int k)),
              sin (pi * (1 + sqrt 5) * (real i + 0.5)) * sin (arccos (1 - (real i + 0.5) / real_of_int k)),
              cos (arccos (1 - (real i + 0.5) / real_of_int k))] \<and>
           0 < arccos (1 - (real i + 0.5) / real_of_int k) \<and>
           arccos (1 - (real i + 0.5) / real_of_int k) < pi / 2 \<and>
           rows mu ! i ! 2 = 1 - (real i + 0.5) / real_of_int k \<and>
           0 < rows mu ! i ! 2"
proof -
  let ?y = "1 - (real i + 0.5) / real_of_int k"
  have kpos: "0 < real_of_int k" using assms(1) by simp
  have "real i + 0.5 < real_of_int k" using assms by simp
  then have y: "0 < ?y" "?y < 1" using kpos by (simp_all add: field_simps)
  note h = arccos_upper_hemisphere [OF y]
  have row: "rows (fst (projr (golden_spiral_init k))) ! i =
             [cos (pi * (1 + sqrt 5) * (real i + 0.5)) * sin (arccos ?y),
              sin (pi * (1 + sqrt 5) * (real i + 0.5)) * sin (arccos ?y),
              cos (arccos ?y)]"
    using assms by (simp add: golden_spiral_init_def Let_def)
  have ok: "golden_spiral_init k = Inr (fst (projr (golden_spiral_init k)),
       fst (snd (projr (golden_spiral_init k))), snd (snd (projr (golden_spiral_init k))))"
    using assms by (simp add: golden_spiral_init_def Let_def)
  have shape: "ncols (fst (projr (golden_spiral_init k))) = 3"
      "length (rows (fst (projr (golden_spiral_init k)))) = nat k"
    using assms by (simp_all add: golden_spiral_init_def Let_def)
  show ?thesis
    apply (rule exI [of _ "fst (projr (golden_spiral_init k))"])
    apply (rule exI [of _ "fst (snd (projr (golden_spiral_init k)))"])
    apply (rule exI [of _ "snd (snd (projr (golden_spiral_init k)))"])
    using ok row shape h y by simp
qed

theorem golden_spiral_directions_witness:
  "\<exists>mu kappa pw.
     golden_spiral_init 2 = Inr (mu, kappa, pw) \<and>
     ncols mu = 3 \<and> length (rows mu) = 2 \<and>
     rows mu ! 1 =
       [cos (pi * (1 + sqrt 5) * (3 / 2)) * sin (arccos (1 / 4)),
        sin (pi * (1 + sqrt 5) * (3 / 2)) * sin (arccos (1 / 4)),
        cos (arccos (1 / 4))] \<and>
     0 < arccos (1 / 4) \<and> arccos (1 / 4) < pi / 2 \<and>
     rows mu ! 1 ! 2 = 1 / 4 \<and> 0 < rows mu ! 1 ! 2"
  using golden_spiral_directions [of 2 1] by simp

subsection \<open>Maximization step\<close>

lemma sum_list_add_pointwise:
  fixes f g :: "nat \<Rightarrow> real"
  shows "sum_list (map (\<lambda>j. f j + g j) js) = sum_list (map f js) + sum_list (map g js)"
  by (induction js) simp_all

lemma column_sums_total:
  fixes rs :: "real list list"
  shows "list_all (\<lambda>r. length r = n) rs \<Longrightarrow>
   sum_list (map (\<lambda>j. sum_list (map (\<lambda>r. r ! j) rs)) [0..<n]) = sum_list (map sum_list rs)"
proof (induction rs)
  case Nil
  then show ?case by simp
next
  case (Cons r rs)
  then have len: "length r = n" and rest: "list_all (\<lambda>r. length r = n) rs" by simp_all
  have "map (\<lambda>j. r ! j) [0..<n] = r" using len map_nth [of r] by simp
  then have "sum_list (map (\<lambda>j. r ! j) [0..<n]) = sum_list r" by simp
  moreover have "sum_list (map (\<lambda>j. r ! j + sum_list (map (\<lambda>r. r ! j) rs)) [0..<n]) =
      sum_list (map (\<lambda>j. r ! j) [0..<n]) + sum_list (map (\<lambda>j. sum_list (map (\<lambda>r. r ! j) rs)) [0..<n])"
    by (rule sum_list_add_pointwise)
  ultimately show ?case using Cons.IH [OF rest] by simp
qed

lemma sum_list_divide_const:
  fixes c :: real
  shows "sum_list (map (\<lambda>j. f j / c) js) = sum_list (map f js) / c"
  by (induction js) (simp_all add: add_divide_distrib)

lemma unit_rows_total:
  fixes rs :: "real list list"
  shows "list_all (\<lambda>r. sum_list r = 1) rs \<Longrightarrow> sum_list (map sum_list rs) = real (length rs)"
  by (induction rs) simp_all

lemma column_sum_nonneg:
  fixes rs :: "real list list"
  assumes "list_all (\<lambda>r. length r = n) rs" "list_all (list_all (\<lambda>x. 0 \<le> x)) rs" "j < n"
  shows "0 \<le> sum_list (map (\<lambda>r. r ! j) rs)"
proof (rule sum_list_nonneg)
  fix x assume "x \<in> set (map (\<lambda>r. r ! j) rs)"
  then obtain r where r: "r \<in> set rs" "x = r ! j" by auto
  with assms have "length r = n" "list_all (\<lambda>x. 0 \<le> x) r" by (simp_all add: list_all_iff)
  with r assms(3) show "0 \<le> x" by (simp add: list_all_length)
qed

lemma upt_0_2: "[0..<2] = [0, Suc 0]"
  by (simp add: numeral_2_eq_2)

lemma m_step_component_example:
  "m_step_component example_env (Array2 2 [[1, 0], [0, 1]])
     (Array2 2 [[199 / 200, 1 / 200], [1 / 200, 199 / 200]]) 2 (Array2 2 [[1, 0], [0, 1]]) 0 =
   Inr (Array2 2 [[1, 0], [0, 1]], 199 / 200,
        [lower_bound (1 / 2) 1 (199 / 200), bound (1 / 2) 1 (199 / 200),
         upper_bound (1 / 2) 1 (199 / 200)])"
  by (simp add: m_step_component_def einsum_i_ij_ik_jk_def column_def bc_len_def bc_def
      example_env_def eig_diagonal_def argmax_def cgt_def assign_bc_def bound_triple_def Let_def
      upt_0_2)

lemma m_step_component_clamped_example:
  "m_step_component example_env (Array2 2 [[1, 0]]) (Array2 1 [[1]]) 2 (Array2 2 [[0, 1]]) 0 =
   Inr (Array2 2 [[1, 0]], 99 / 100,
        [lower_bound (1 / 2) 1 (99 / 100), bound (1 / 2) 1 (99 / 100),
         upper_bound (1 / 2) 1 (99 / 100)])"
  by (simp add: m_step_component_def einsum_i_ij_ik_jk_def column_def bc_len_def bc_def
      example_env_def eig_diagonal_def argmax_def cgt_def assign_bc_def bound_triple_def Let_def
      upt_0_2)

lemma m_step_component_example_1:
  "m_step_component example_env (Array2 2 [[1, 0], [0, 1]])
     (Array2 2 [[199 / 200, 1 / 200], [1 / 200, 199 / 200]]) 2 (Array2 2 [[1, 0], [0, 1]]) (Suc 0) =
   Inr (Array2 2 [[1, 0], [0, 1]], 199 / 200,
        [lower_bound (1 / 2) 1 (199 / 200), bound (1 / 2) 1 (199 / 200),
         upper_bound (1 / 2) 1 (199 / 200)])"
  by (simp add: m_step_component_def einsum_i_ij_ik_jk_def column_def bc_len_def bc_def
      example_env_def eig_diagonal_def argmax_def cgt_def assign_bc_def bound_triple_def Let_def
      upt_0_2)

lemma m_step_example:
  "m_step example_env (Array2 2 [[1, 0], [0, 1]]) (Array2 2 [[1, 0], [0, 1]])
     (Array2 2 [[199 / 200, 1 / 200], [1 / 200, 199 / 200]]) 2 2 2 0 =
   Inr (Array2 2 [[1, 0], [0, 1]],
        [bound (1 / 2) 1 (199 / 200), bound (1 / 2) 1 (199 / 200)],
        [1 / 2, 1 / 2],
        [[lower_bound (1 / 2) 1 (199 / 200), bound (1 / 2) 1 (199 / 200),
          upper_bound (1 / 2) 1 (199 / 200)],
         [lower_bound (1 / 2) 1 (199 / 200), bound (1 / 2) 1 (199 / 200),
          upper_bound (1 / 2) 1 (199 / 200)]])"
  by (simp add: m_step_def upt_0_2 m_step_component_example m_step_component_example_1
      column_def Let_def)

text \<open>
  Claim C4. After a Maximization step on a responsibility matrix with \<open>N \<ge> 1\<close> rows,
  each with non-negative entries summing to 1, the new mixing weights (the column means
  of the matrix) are non-negative and sum to 1.
\<close>

theorem m_step_weights_simplex:
  assumes run: "m_step env X mu beta k N p gamma = Inr (mu', kappa', pi', bounds')"
    and N: "1 \<le> N" "length (rows beta) = N"
    and wf: "wf_array2 beta"
    and unit: "list_all (\<lambda>r. sum_list r = 1) (rows beta)"
    and nonneg: "list_all (list_all (\<lambda>x. 0 \<le> x)) (rows beta)"
  shows "list_all (\<lambda>x. 0 \<le> x) pi' \<and> sum_list pi' = 1 \<and> length pi' = ncols beta"
proof -
  from run have pi': "pi' = map (\<lambda>j. sum_list (column beta j) / real N) [0..<ncols beta]"
    unfolding m_step_def Let_def by (auto split: if_splits sum.splits prod.splits)
  have wf': "list_all (\<lambda>r. length r = ncols beta) (rows beta)" using wf by (simp add: wf_array2_def)
  have "sum_list pi' = sum_list (map (\<lambda>j. sum_list (column beta j)) [0..<ncols beta]) / real N"
    unfolding pi' by (rule sum_list_divide_const)
  also have "\<dots> = sum_list (map sum_list (rows beta)) / real N"
    unfolding column_def using column_sums_total [OF wf'] by simp
  also have "\<dots> = real N / real N" using unit_rows_total [OF unit] N by simp
  finally have total: "sum_list pi' = 1" using N by simp
  have "0 \<le> sum_list (column beta j) / real N" if "j < ncols beta" for j
    unfolding column_def using column_sum_nonneg [OF wf' nonneg that] by simp
  then have "list_all (\<lambda>x. 0 \<le> x) pi'" unfolding pi' by (simp add: list_all_iff)
  with total show ?thesis by (simp add: pi')
qed

theorem m_step_weights_simplex_witness:
  "list_all (\<lambda>x. 0 \<le> x) [1 / 2, 1 / 2 :: real] \<and> sum_list [1 / 2, 1 / 2 :: real] = 1 \<and>
   length [1 / 2, 1 / 2 :: real] = ncols (Array2 2 [[199 / 200, 1 / 200], [1 / 200, 199 / 200]])"
  using m_step_weights_simplex [OF m_step_example] by (simp add: wf_array2_def)

text \<open>
  Claim C5, as stated: the ratio \<open>r\<close> handed to the bound estimators is at most
  \<open>0.99\<close>. It fails: the clamp only acts above \<open>0.999\<close>. For the points \<open>(1, 0)\<close>,
  \<open>(0, 1)\<close> and the responsibilities \<open>(0.995, 0.005)\<close>, \<open>(0.005, 0.995)\<close> the scatter
  matrix of the first component is diagonal with the entries \<open>0.995\<close> and \<open>0.005\<close>, and
  the estimators receive \<open>r = 0.995\<close>.
\<close>

theorem m_step_ratio_above_099_counterexample:
  "m_step_component example_env (Array2 2 [[1, 0], [0, 1]])
     (Array2 2 [[199 / 200, 1 / 200], [1 / 200, 199 / 200]]) 2 (Array2 2 [[1, 0], [0, 1]]) 0 =
   Inr (Array2 2 [[1, 0], [0, 1]], 199 / 200,
        [lower_bound (1 / 2) 1 (199 / 200), bound (1 / 2) 1 (199 / 200),
         upper_bound (1 / 2) 1 (199 / 200)]) \<and>
   \<not> (199 / 200 \<le> (0.99 :: real))"
  using m_step_component_example by simp

text \<open>
  Claim C5, amended. In every Maximization step, for every component, the ratio \<open>r\<close>
  handed to the three bound estimators is at most \<open>0.999\<close> (a larger eigenvalue is
  replaced by \<open>0.99\<close>), so the factor \<open>1 / (1 - r)\<close> is at most 1000.
\<close>

theorem m_step_component_ratio_bounded:
  assumes "m_step_component env X beta p mu j = Inr (mu', r, brow)"
  shows "r \<le> 0.999 \<and> 1 / (1 - r) \<le> 1000 \<and>
         brow = [lower_bound (1 / 2) (real p / 2) r, bound (1 / 2) (real p / 2) r,
                 upper_bound (1 / 2) (real p / 2) r]"
proof -
  from assms have "\<exists>r0 :: real. r = (if r0 > 0.999 then 0.99 else r0) \<and>
      bound_triple (r0 > 0.999) (real p / 2) r = Inr brow"
    unfolding m_step_component_def Let_def
    by (simp split: if_splits sum.splits prod.splits
        del: eq_divide_eq_numeral1 divide_eq_eq_numeral1 less_divide_eq_numeral1
             divide_less_eq_numeral1) blast+
  then obtain r0 :: real where r: "r = (if r0 > 0.999 then 0.99 else r0)"
    and brow: "bound_triple (r0 > 0.999) (real p / 2) r = Inr brow" by blast
  from r have le: "r \<le> 0.999" by (simp split: if_splits)
  then have "1 / (1 - r) \<le> 1000" by (simp add: field_simps)
  moreover from brow have "brow = [lower_bound (1 / 2) (real p / 2) r, bound (1 / 2) (real p / 2) r,
                 upper_bound (1 / 2) (real p / 2) r]"
    unfolding bound_triple_def by (auto split: if_splits)
  ultimately show ?thesis using le by simp
qed

theorem m_step_component_ratio_bounded_witness:
  "(99 / 100 :: real) \<le> 0.999 \<and> 1 / (1 - 99 / 100) \<le> (1000 :: real) \<and>
   [lower_bound (1 / 2) 1 (99 / 100), bound (1 / 2) 1 (99 / 100), upper_bound (1 / 2) 1 (99 / 100)] =
   [lower_bound (1 / 2) (real 2 / 2) (99 / 100), bound (1 / 2) (real 2 / 2) (99 / 100),
    upper_bound (1 / 2) (real 2 / 2) (99 / 100)]"
  using m_step_component_ratio_bounded [OF m_step_component_clamped_example] by simp

subsection \<open>Series evaluator\<close>

text \<open>One pass of the loop, and the pass in which the term overflows.\<close>

lemma kummer_loop_exit:
  "\<bar>trm\<bar> \<le> tol \<Longrightarrow> kummer_loop a b kappa tol trm f j = Some (Inr (f, j))"
  by (subst kummer_loop.simps) simp

lemma kummer_loop_step:
  "tol < \<bar>trm\<bar> \<Longrightarrow> b + 1 \<noteq> 0 \<Longrightarrow>
   \<bar>trm * ((a + 1) * kappa / (b + 1) / real (j + 1))\<bar> \<le> double_max \<Longrightarrow>
   kummer_loop a b kappa tol trm f j =
   kummer_loop (a + 1) (b + 1) kappa tol
     (trm * ((a + 1) * kappa / (b + 1) / real (j + 1)))
     (f + trm * ((a + 1) * kappa / (b + 1) / real (j + 1))) (j + 1)"
  by (subst kummer_loop.simps) (simp add: Let_def)


lemma after_overflow_no_result: "after_overflow a b \<noteq> Some (Inr y)"
  by (simp add: after_overflow_def)

text \<open>
  The loop variable \<^verbatim>\<open>term\<close> at the counter \<open>j\<close> is the term \<open>j\<close> of the series, and
  \<^verbatim>\<open>f\<close> is the sum of the terms up to \<open>j\<close>: a result of the loop is a partial sum that
  ends at the first term, from the first-order one on, that is within the tolerance.
\<close>

lemma series_term_1: "series_term a b kappa 1 = a * kappa / b"
  by simp

lemma kummer_loop_indexed_step:
  assumes "tol < \<bar>series_term a b kappa (Suc m)\<bar>" "b + real (Suc m) \<noteq> 0"
    and "\<bar>series_term a b kappa (Suc (Suc m))\<bar> \<le> double_max"
  shows "kummer_loop (a + real m) (b + real m) kappa tol (series_term a b kappa (Suc m))
           (\<Sum>i\<le>Suc m. series_term a b kappa i) (Suc m) =
         kummer_loop (a + real (Suc m)) (b + real (Suc m)) kappa tol
           (series_term a b kappa (Suc (Suc m)))
           (\<Sum>i\<le>Suc (Suc m). series_term a b kappa i) (Suc (Suc m))"
proof -
  have e: "a + real m + 1 = a + real (Suc m)" "b + real m + 1 = b + real (Suc m)"
    "Suc m + 1 = Suc (Suc m)" by simp_all
  have nx: "series_term a b kappa (Suc m) *
        ((a + real m + 1) * kappa / (b + real m + 1) / real (Suc m + 1)) =
      series_term a b kappa (Suc (Suc m))"
    unfolding e by (rule series_term.simps(2) [symmetric])
  have b1: "b + real m + 1 \<noteq> 0" using assms(2) by (simp add: add.assoc add.commute)
  have "kummer_loop (a + real m) (b + real m) kappa tol (series_term a b kappa (Suc m))
           (\<Sum>i\<le>Suc m. series_term a b kappa i) (Suc m) =
        kummer_loop (a + real m + 1) (b + real m + 1) kappa tol
           (series_term a b kappa (Suc (Suc m)))
           ((\<Sum>i\<le>Suc m. series_term a b kappa i) + series_term a b kappa (Suc (Suc m)))
           (Suc m + 1)"
    using kummer_loop_step [OF assms(1) b1, of "a + real m" kappa "Suc m"
        "\<Sum>i\<le>Suc m. series_term a b kappa i"] assms(3)
    unfolding nx by simp
  moreover have "a + real m + 1 = a + real (Suc m)" "b + real m + 1 = b + real (Suc m)" by simp_all
  ultimately show ?thesis by simp
qed

lemma kummer_loop_indexed_result:
  "kummer_loop a' b' kappa tol trm f j = Some y \<Longrightarrow>
   \<forall>a b m. a' = a + real m \<and> b' = b + real m \<and> j = Suc m \<and>
       trm = series_term a b kappa (Suc m) \<and> f = (\<Sum>i\<le>Suc m. series_term a b kappa i) \<longrightarrow>
     (\<forall>f' j'. y = Inr (f', j') \<longrightarrow>
        Suc m \<le> j' \<and> f' = (\<Sum>i\<le>j'. series_term a b kappa i) \<and>
        \<bar>series_term a b kappa j'\<bar> \<le> tol \<and>
        (\<forall>i. Suc m \<le> i \<and> i < j' \<longrightarrow> tol < \<bar>series_term a b kappa i\<bar>))"
proof (rule kummer_loop.raw_induct
    [where P = "\<lambda>a' b' kappa tol trm f j y.
       \<forall>a b m. a' = a + real m \<and> b' = b + real m \<and> j = Suc m \<and>
       trm = series_term a b kappa (Suc m) \<and> f = (\<Sum>i\<le>Suc m. series_term a b kappa i) \<longrightarrow>
     (\<forall>f' j'. y = Inr (f', j') \<longrightarrow>
        Suc m \<le> j' \<and> f' = (\<Sum>i\<le>j'. series_term a b kappa i) \<and>
        \<bar>series_term a b kappa j'\<bar> \<le> tol \<and>
        (\<forall>i. Suc m \<le> i \<and> i < j' \<longrightarrow> tol < \<bar>series_term a b kappa i\<bar>))"], goal_cases)
  case (1 loop a' b' kappa tol trm f j y)
  note IH = 1(2) and body = 1(3)
  show ?case
  proof (intro allI impI, elim conjE)
    fix a b m f' j'
    assume st: "a' = a + real m" "b' = b + real m" "j = Suc m"
      "trm = series_term a b kappa (Suc m)" "f = (\<Sum>i\<le>Suc m. series_term a b kappa i)"
      and y: "y = Inr (f', j')"
    let ?T = "series_term a b kappa"
    show "Suc m \<le> j' \<and> f' = (\<Sum>i\<le>j'. ?T i) \<and> \<bar>?T j'\<bar> \<le> tol \<and>
          (\<forall>i. Suc m \<le> i \<and> i < j' \<longrightarrow> tol < \<bar>?T i\<bar>)"
    proof (cases "tol < \<bar>trm\<bar>")
      case False
      with body y have "f' = f" "j' = j" by simp_all
      with st False show ?thesis by simp
    next
      case True
      have e: "a' + 1 = a + real (Suc m)" "b' + 1 = b + real (Suc m)" "j + 1 = Suc (Suc m)"
        using st by simp_all
      have nx: "trm * ((a' + 1) * kappa / (b' + 1) / real (j + 1)) = ?T (Suc (Suc m))"
        unfolding e st(4) by (rule series_term.simps(2) [symmetric])
      define t' where "t' = trm * ((a' + 1) * kappa / (b' + 1) / real (j + 1))"
      from body True
      have body': "(if b' + 1 = 0 then Some (Inl ZeroDivisionError)
                    else if double_max < \<bar>t'\<bar> then after_overflow (a' + 1) (b' + 1)
                    else loop (a' + 1) (b' + 1) kappa tol t' (f + t') (j + 1)) = Some y"
        by (simp only: Let_def if_True t'_def)
      have t': "t' = ?T (Suc (Suc m))" unfolding t'_def by (rule nx)
      from body' y have b1: "b' + 1 \<noteq> 0" by (auto split: if_splits)
      from body' y b1 have small: "\<not> double_max < \<bar>t'\<bar>"
        using after_overflow_no_result [of "a' + 1" "b' + 1" "(f', j')"]
        by (auto split: if_splits)
      from body' b1 small
      have rec: "loop (a' + 1) (b' + 1) kappa tol (?T (Suc (Suc m))) (f + ?T (Suc (Suc m))) (j + 1) = Some y"
        by (simp add: t')
      have "f + ?T (Suc (Suc m)) = (\<Sum>i\<le>Suc (Suc m). ?T i)" using st(5) by simp
      with IH [OF rec] e y
      have res: "Suc (Suc m) \<le> j' \<and> f' = (\<Sum>i\<le>j'. ?T i) \<and> \<bar>?T j'\<bar> \<le> tol \<and>
          (\<forall>i. Suc (Suc m) \<le> i \<and> i < j' \<longrightarrow> tol < \<bar>?T i\<bar>)"
        by blast
      have "tol < \<bar>?T i\<bar>" if "Suc m \<le> i" "i < j'" for i
      proof (cases "i = Suc m")
        case True
        with \<open>tol < \<bar>trm\<bar>\<close> st(4) show ?thesis by simp
      next
        case False
        with that res show ?thesis by simp
      qed
      with res show ?thesis by simp
    qed
  qed
qed

lemma kummer_iter_result:
  assumes "kummer_iter a b kappa tol = Some (Inr (f, j))"
  shows "1 \<le> j \<and> f = (\<Sum>i\<le>j. series_term a b kappa i) \<and>
         \<bar>series_term a b kappa j\<bar> \<le> tol \<and>
         (\<forall>i. 1 \<le> i \<and> i < j \<longrightarrow> tol < \<bar>series_term a b kappa i\<bar>)"
proof -
  from assms have b0: "b \<noteq> 0" by (auto simp: kummer_iter_def split: if_splits)
  from assms b0 have "\<not> double_max < \<bar>a * kappa / b\<bar>"
    using after_overflow_no_result [of a b "(f, j)"]
    by (auto simp: kummer_iter_def Let_def split: if_splits)
  with assms b0
  have run: "kummer_loop a b kappa tol (a * kappa / b) (1 + a * kappa / b) 1 = Some (Inr (f, j))"
    by (simp add: kummer_iter_def Let_def)
  have st: "a = a + real 0 \<and> b = b + real 0 \<and> 1 = Suc 0 \<and>
      a * kappa / b = series_term a b kappa (Suc 0) \<and>
      1 + a * kappa / b = (\<Sum>i\<le>Suc 0. series_term a b kappa i)"
    by simp
  from kummer_loop_indexed_result [OF run] st
  have "Suc 0 \<le> j \<and> f = (\<Sum>i\<le>j. series_term a b kappa i) \<and>
        \<bar>series_term a b kappa j\<bar> \<le> tol \<and>
        (\<forall>i. Suc 0 \<le> i \<and> i < j \<longrightarrow> tol < \<bar>series_term a b kappa i\<bar>)"
    by blast
  then show ?thesis by simp
qed

text \<open>
  For a positive tolerance, \<open>a \<ge> 0\<close> and \<open>b > 0\<close> the terms of the series tend to zero:
  the ratio of consecutive terms is at most \<open>max 1 (a / b) * \<bar>kappa\<bar> / (i + 1)\<close>, so it
  drops below \<open>1 / 2\<close> after finitely many terms, and from then on the terms halve. The
  loop then ends, unless a term overflows first.
\<close>

lemma series_ratio_bound:
  fixes a b C kappa :: real
  assumes P: "0 \<le> a" "0 < b" "a \<le> C * b" "1 \<le> C" and D: "2 * C * \<bar>kappa\<bar> \<le> real i + 1"
  shows "\<bar>(a + real i) * kappa / (b + real i) / real (Suc i)\<bar> \<le> 1 / 2"
proof -
  have "a + real i \<le> C * (b + real i)"
  proof -
    have "real i \<le> C * real i" using P(4) by (simp add: mult_le_cancel_right1)
    with P(3) show ?thesis by (simp add: algebra_simps)
  qed
  then have "(a + real i) * \<bar>kappa\<bar> \<le> C * (b + real i) * \<bar>kappa\<bar>"
    by (intro mult_right_mono) simp_all
  also have "\<dots> = (C * \<bar>kappa\<bar>) * (b + real i)" by simp
  also have "\<dots> \<le> ((real i + 1) / 2) * (b + real i)"
    using D P by (intro mult_right_mono) simp_all
  finally have "(a + real i) * \<bar>kappa\<bar> \<le> (b + real i) * (real i + 1) / 2"
    by (simp add: mult.commute)
  moreover have "\<bar>(a + real i) * kappa / (b + real i) / real (Suc i)\<bar> =
      (a + real i) * \<bar>kappa\<bar> / ((b + real i) * (real i + 1))"
    using P by (simp add: abs_mult add.commute)
  moreover have "0 < (b + real i) * (real i + 1)" using P by (simp add: add_pos_nonneg)
  ultimately show ?thesis by (simp add: field_simps)
qed

lemma series_term_halves:
  fixes a b C kappa :: real
  assumes P: "0 \<le> a" "0 < b" "a \<le> C * b" "1 \<le> C" and D: "2 * C * \<bar>kappa\<bar> \<le> real N + 1"
  shows "\<bar>series_term a b kappa (N + n)\<bar> \<le> \<bar>series_term a b kappa N\<bar> / 2 ^ n"
proof (induction n)
  case 0
  then show ?case by simp
next
  case (Suc n)
  have "2 * C * \<bar>kappa\<bar> \<le> real (N + n) + 1" using D by simp
  from series_ratio_bound [OF P this]
  have q: "\<bar>(a + real (N + n)) * kappa / (b + real (N + n)) / real (Suc (N + n))\<bar> \<le> 1 / 2" .
  have "\<bar>series_term a b kappa (N + Suc n)\<bar> =
        \<bar>series_term a b kappa (N + n)\<bar> *
        \<bar>(a + real (N + n)) * kappa / (b + real (N + n)) / real (Suc (N + n))\<bar>"
    by (simp only: add_Suc_right series_term.simps abs_mult)
  also have "\<dots> \<le> \<bar>series_term a b kappa (N + n)\<bar> * (1 / 2)"
    using q by (intro mult_left_mono) simp_all
  also have "\<dots> \<le> (\<bar>series_term a b kappa N\<bar> / 2 ^ n) * (1 / 2)"
    using Suc.IH by (intro mult_right_mono) simp_all
  finally show ?case by simp
qed

lemma series_term_small:
  fixes a b kappa tol :: real
  assumes "0 < tol" "0 \<le> a" "0 < b"
  shows "\<exists>n. \<bar>series_term a b kappa (Suc n)\<bar> \<le> tol"
proof -
  define C where "C = max 1 (a / b)"
  have C1: "1 \<le> C" by (simp add: C_def)
  have "a / b \<le> C" by (simp add: C_def)
  then have aC: "a \<le> C * b" using assms(3) by (simp add: field_simps)
  obtain N :: nat where N: "2 * C * \<bar>kappa\<bar> \<le> real N" using real_arch_simple by blast
  then have D: "2 * C * \<bar>kappa\<bar> \<le> real N + 1" by simp
  obtain n where "\<bar>series_term a b kappa N\<bar> / tol < 2 ^ n"
    using real_arch_pow [of 2 "\<bar>series_term a b kappa N\<bar> / tol"] by auto
  then have "\<bar>series_term a b kappa N\<bar> / 2 ^ n \<le> tol" using assms(1) by (simp add: field_simps)
  with series_term_halves [OF assms(2,3) aC C1 D, of n]
  have n: "\<bar>series_term a b kappa (N + n)\<bar> \<le> tol" by simp
  have "2 * C * \<bar>kappa\<bar> \<le> real (N + n) + 1" using D by simp
  from series_ratio_bound [OF assms(2,3) aC C1 this]
  have "\<bar>series_term a b kappa (Suc (N + n))\<bar> \<le> \<bar>series_term a b kappa (N + n)\<bar> * (1 / 2)"
    by (simp only: series_term.simps abs_mult) (intro mult_left_mono, simp_all)
  also have "\<dots> \<le> \<bar>series_term a b kappa (N + n)\<bar>" by simp
  finally show ?thesis using n by (intro exI [of _ "N + n"]) simp
qed

lemma kummer_loop_indexed_returns:
  assumes small: "\<bar>series_term a b kappa (Suc n)\<bar> \<le> tol"
    and nz: "\<forall>i. b + real (Suc i) \<noteq> 0"
    and fin: "\<forall>i. \<bar>series_term a b kappa i\<bar> \<le> double_max"
  shows "m \<le> n \<Longrightarrow>
         \<exists>y. kummer_loop (a + real m) (b + real m) kappa tol (series_term a b kappa (Suc m))
               (\<Sum>i\<le>Suc m. series_term a b kappa i) (Suc m) = Some (Inr y)"
proof (induction "n - m" arbitrary: m)
  case 0
  then have "m = n" by simp
  with small show ?case by (simp add: kummer_loop_exit)
next
  case (Suc d)
  show ?case
  proof (cases "\<bar>series_term a b kappa (Suc m)\<bar> \<le> tol")
    case True
    then show ?thesis by (simp add: kummer_loop_exit)
  next
    case False
    then have big: "tol < \<bar>series_term a b kappa (Suc m)\<bar>" by simp
    have "d = n - Suc m" "Suc m \<le> n" using Suc.hyps(2) Suc.prems by simp_all
    from Suc.hyps(1) [OF this]
    obtain y where "kummer_loop (a + real (Suc m)) (b + real (Suc m)) kappa tol
        (series_term a b kappa (Suc (Suc m))) (\<Sum>i\<le>Suc (Suc m). series_term a b kappa i)
        (Suc (Suc m)) = Some (Inr y)" by blast
    moreover have "b + real (Suc m) \<noteq> 0" using nz by blast
    moreover have "\<bar>series_term a b kappa (Suc (Suc m))\<bar> \<le> double_max" using fin by blast
    ultimately show ?thesis using kummer_loop_indexed_step [OF big] by auto
  qed
qed

lemma kummer_iter_returns:
  fixes a b kappa tol :: real
  assumes "0 < tol" "0 \<le> a" "0 < b"
    and fin: "\<forall>i. \<bar>series_term a b kappa i\<bar> \<le> double_max"
  shows "\<exists>f j. kummer_iter a b kappa tol = Some (Inr (f, j))"
proof -
  obtain n where n: "\<bar>series_term a b kappa (Suc n)\<bar> \<le> tol"
    using series_term_small [OF assms(1-3)] by blast
  have nz: "\<forall>i. b + real (Suc i) \<noteq> 0"
  proof
    fix i have "0 < b + real (Suc i)" using assms(3) by (simp add: add_pos_nonneg)
    then show "b + real (Suc i) \<noteq> 0" by simp
  qed
  from kummer_loop_indexed_returns [OF n nz fin, of 0]
  obtain y where "kummer_loop a b kappa tol (series_term a b kappa (Suc 0))
               (\<Sum>i\<le>Suc 0. series_term a b kappa i) (Suc 0) = Some (Inr y)" by auto
  then have "kummer_loop a b kappa tol (a * kappa / b) (1 + a * kappa / b) 1 = Some (Inr y)"
    by simp
  moreover have "\<not> double_max < \<bar>a * kappa / b\<bar>" using fin [rule_format, of 1] by simp
  ultimately have "kummer_iter a b kappa tol = Some (Inr y)"
    using assms(3) by (simp add: kummer_iter_def Let_def)
  then show ?thesis by (cases y) auto
qed

text \<open>
  For \<open>0 \<le> kappa \<le> 1\<close> and \<open>0 \<le> a \<le> b\<close> the terms lie between 0 and 1: no term
  overflows and the sum is at least 1.
\<close>

lemma series_term_nonneg:
  assumes "0 \<le> a" "0 < b" "0 \<le> kappa"
  shows "0 \<le> series_term a b kappa i"
  using assms by (induction i) simp_all

lemma series_term_le_1:
  assumes "0 \<le> a" "0 < b" "a \<le> b" "0 \<le> kappa" "kappa \<le> 1"
  shows "series_term a b kappa i \<le> 1"
proof (induction i)
  case 0
  then show ?case by simp
next
  case (Suc i)
  have "(a + real i) * kappa \<le> (b + real i) * 1"
    using assms by (intro mult_mono) simp_all
  also have "\<dots> \<le> (b + real i) * real (Suc i)"
    using assms by (intro mult_left_mono) simp_all
  finally have le: "(a + real i) * kappa \<le> 1 * ((b + real i) * real (Suc i))" by simp
  have "0 < (b + real i) * real (Suc i)" using assms by (simp add: add_pos_nonneg)
  from mult_imp_div_pos_le [OF this le]
  have "(a + real i) * kappa / (b + real i) / real (Suc i) \<le> 1"
    by (simp only: divide_divide_eq_left)
  moreover have "0 \<le> (a + real i) * kappa / (b + real i) / real (Suc i)" using assms by simp
  moreover have "0 \<le> series_term a b kappa i" using assms by (intro series_term_nonneg)
  ultimately have "series_term a b kappa i * ((a + real i) * kappa / (b + real i) / real (Suc i)) \<le> 1 * 1"
    using Suc.IH by (intro mult_mono) simp_all
  then show ?case by simp
qed

lemma double_max_ge_1: "1 \<le> double_max"
  by (simp add: double_max_def)

lemma kummer_positive:
  assumes "0 < tol" "0 \<le> a" "0 < b" "a \<le> b" "0 \<le> kappa" "kappa \<le> 1"
  shows "\<exists>f. kummer a b kappa tol = Some (Inr f) \<and> 1 \<le> f"
proof -
  have fin: "\<forall>i. \<bar>series_term a b kappa i\<bar> \<le> double_max"
  proof
    fix i
    have "\<bar>series_term a b kappa i\<bar> = series_term a b kappa i"
      using series_term_nonneg [OF assms(2,3,5)] by simp
    also have "\<dots> \<le> 1" using assms by (intro series_term_le_1)
    finally show "\<bar>series_term a b kappa i\<bar> \<le> double_max" using double_max_ge_1 by simp
  qed
  from kummer_iter_returns [OF assms(1-3) fin]
  obtain f j where r: "kummer_iter a b kappa tol = Some (Inr (f, j))" by blast
  from kummer_iter_result [OF r] have "f = (\<Sum>i\<le>j. series_term a b kappa i)" by simp
  also have "\<dots> = series_term a b kappa 0 + (\<Sum>i\<in>{0<..j}. series_term a b kappa i)"
    by (simp add: sum.atMost_shift atMost_atLeast0 sum.head)
  also have "\<dots> \<ge> 1"
    using series_term_nonneg [OF assms(2,3,5)] by (simp add: sum_nonneg)
  finally have "1 \<le> f" .
  with r show ?thesis by (simp add: kummer_def)
qed

text \<open>
  Claim C7. For every pair of shape parameters \<open>a\<close>, \<open>b\<close> (with \<open>b \<noteq> 0\<close>, so that the
  first division is defined) and every positive tolerance, the series evaluator called
  with \<open>kappa = 0\<close> returns exactly 1, after a single term.
\<close>

theorem kummer_kappa_zero:
  assumes "b \<noteq> 0" "0 < tol"
  shows "kummer a b 0 tol = Some (Inr 1) \<and> kummer_iter a b 0 tol = Some (Inr (1, 1))"
  using assms double_max_ge_1 by (simp add: kummer_def kummer_iter_def kummer_loop_exit)

theorem kummer_kappa_zero_witness:
  "kummer (1 / 2) (3 / 2) 0 (1 / 10 ^ 10) = Some (Inr 1) \<and>
   kummer_iter (1 / 2) (3 / 2) 0 (1 / 10 ^ 10) = Some (Inr (1, 1))"
  using kummer_kappa_zero [of "3 / 2" "1 / 10 ^ 10" "1 / 2"] by simp



subsection \<open>The fitting loop\<close>











text \<open>A run with \<open>k = 0\<close> on the single point \<open>(0, 0, 1)\<close> and \<open>maxiter = 2\<close>.\<close>

lemma golden_spiral_init_0: "golden_spiral_init 0 = Inr (Array2 3 [], [], [])"
  by (simp add: golden_spiral_init_def)

lemma e_step_k0:
  "e_step env (Array2 3 [[0, 0, 1]]) mu kappa pw 0 3 = Some (Inr (Array2 0 [[]], NInf))"
  by (simp add: e_step_def fsum_def)

lemma m_step_k0:
  "m_step env X mu (Array2 0 [[]]) 0 (Suc 0) 3 0 = Inr (mu, [], [], [])"
  by (simp add: m_step_def)

lemma em_iteration_k0_first:
  "em_iteration env (Array2 3 [[0, 0, 1]]) 0 (Suc 0) 3 0 2 tol (st_k0 0 [Fin 0, Fin 0]) =
   Some (Inr (st_k0 (Suc 0) [NInf, Fin 0], - 1))"
  by (simp add: em_iteration_def st_k0_def e_step_k0 m_step_k0 convergence_def assign_bc_def)

lemma em_iteration_k0_second:
  "em_iteration env (Array2 3 [[0, 0, 1]]) 0 (Suc 0) 3 0 2 tol (st_k0 (Suc 0) [NInf, Fin 0]) =
   Some (Inr (st_k0 2 [NInf, NInf], 1))"
  by (simp add: em_iteration_def st_k0_def e_step_k0 m_step_k0 convergence_def rel_change_def
      fsub_def assign_bc_def)

lemma em_loop_k0:
  "em_loop env (Array2 3 [[0, 0, 1]]) 0 (Suc 0) 3 0 2 tol (st_k0 0 [Fin 0, Fin 0]) =
   Some (Inr (st_k0 2 [NInf, NInf], 1))"
  apply (subst em_loop.simps)
  apply (simp add: em_iteration_k0_first)
  apply (subst em_loop.simps)
  apply (simp add: em_iteration_k0_second)
  done

lemma replicate_2: "replicate 2 x = [x, x]"
  by (simp add: numeral_2_eq_2)

lemma wmm_fit_run_k0:
  "wmm_fit_run example_env \<lparr>rng_state = 0, entropy_reads = 0\<rparr> (Array2 3 [[0, 0, 1]]) 0 2
     tol None InitNone 0 =
   (Some (Inr (st_k0 2 [NInf, NInf], 1)), \<lparr>rng_state = 0, entropy_reads = Suc 0\<rparr>)"
proof -
  have ent: "os_entropy example_env 0 = 0" by (simp add: example_env_def)
  have st0: "\<lparr>st_mu = Array2 3 [], st_kappa = [], st_pi = [], st_llh = [Fin 0, Fin 0],
      hist_Mu = [Array2 3 [], Array2 3 []], hist_Kappa = [[], []], hist_Bounds = [[], []],
      hist_Pi = [[], []], st_iter = 0\<rparr> = st_k0 0 [Fin 0, Fin 0]"
    by (simp add: st_k0_def)
  show ?thesis
    by (simp add: wmm_fit_run_def np_random_seed_def wmm_init_def golden_spiral_init_0
        Let_def ent replicate_2 st0 em_loop_k0)
qed

text \<open>
  A run with one component on the single point \<open>(1, 0)\<close>, started from the mean direction
  \<open>(0, 1)\<close>, with \<open>maxiter = 1\<close>: the one iteration moves the mean direction to the
  point and gives it the weight 1.
\<close>

lemma e_step_single_example:
  "\<exists>l. e_step example_env (Array2 2 [[1, 0]]) (Array2 2 [[0, 1]]) [1] [1] 1 2 =
     Some (Inr (Array2 1 [[1]], Fin l))"
proof -
  obtain km where km: "kummer (1 / 2) 1 1 (1 / 10 ^ 10) = Some (Inr km)" "1 \<le> km"
    using kummer_positive [of "1 / 10 ^ 10" "1 / 2" 1 1] by auto
  have g: "sp_gamma example_env 1 = 1" by (simp add: example_env_def numeral_2_eq_2)
  have col: "e_step_col example_env (Array2 2 [[1, 0]]) (Array2 2 [[0, 1]]) [1] [1] 2 0 =
      Some (Inr [1 / (2 * pi * km)])"
    using km by (simp add: e_step_col_def einsum_i_ji_j_def bc_len_def bc_def g)
  have pos: "0 < 1 / (2 * pi * km)" using km(2) by simp
  have "e_step example_env (Array2 2 [[1, 0]]) (Array2 2 [[0, 1]]) [1] [1] 1 2 =
     Some (Inr (Array2 1 [[1]], Fin (ln (1 / (2 * pi * km)))))"
    using pos km(2) by (simp add: e_step_def col fsum_def)
  then show ?thesis by blast
qed

lemma m_step_single_example:
  "m_step example_env (Array2 2 [[1, 0]]) (Array2 2 [[0, 1]]) (Array2 (Suc 0) [[1]]) 1 (Suc 0) 2 0 =
   Inr (Array2 2 [[1, 0]], [bound (1 / 2) 1 (99 / 100)], [1],
        [[lower_bound (1 / 2) 1 (99 / 100), bound (1 / 2) 1 (99 / 100),
          upper_bound (1 / 2) 1 (99 / 100)]])"
proof -
  have "m_step_component example_env (Array2 2 [[1, 0]]) (Array2 (Suc 0) [[1]]) 2
          (Array2 2 [[0, 1]]) 0 =
        Inr (Array2 2 [[1, 0]], 99 / 100,
             [lower_bound (1 / 2) 1 (99 / 100), bound (1 / 2) 1 (99 / 100),
              upper_bound (1 / 2) 1 (99 / 100)])"
    using m_step_component_clamped_example by simp
  then show ?thesis by (simp add: m_step_def column_def)
qed

lemma em_loop_single_example:
  "\<exists>l. em_loop example_env (Array2 2 [[1, 0]]) 1 (Suc 0) 2 0 1 tol
         \<lparr>st_mu = Array2 2 [[0, 1]], st_kappa = [1], st_pi = [1], st_llh = [Fin 0],
          hist_Mu = [Array2 2 [[0, 0]]], hist_Kappa = [[0]], hist_Bounds = [[[0, 0, 0]]],
          hist_Pi = [[0]], st_iter = 0\<rparr> =
       Some (Inr (\<lparr>st_mu = Array2 2 [[1, 0]], st_kappa = [bound (1 / 2) 1 (99 / 100)],
                    st_pi = [1], st_llh = [Fin l],
                    hist_Mu = [Array2 2 [[1, 0]]],
                    hist_Kappa = [[bound (1 / 2) 1 (99 / 100)]],
                    hist_Bounds = [[[lower_bound (1 / 2) 1 (99 / 100),
                                     bound (1 / 2) 1 (99 / 100),
                                     upper_bound (1 / 2) 1 (99 / 100)]]],
                    hist_Pi = [[1]], st_iter = Suc 0\<rparr>, 0))"
proof -
  obtain l where "e_step example_env (Array2 2 [[1, 0]]) (Array2 2 [[0, 1]]) [1] [1] 1 2 =
     Some (Inr (Array2 1 [[1]], Fin l))"
    using e_step_single_example by blast
  then show ?thesis
    by (subst em_loop.simps)
       (simp add: em_iteration_def m_step_single_example convergence_def assign_bc_def)
qed

lemma wmm_fit_run_single_example:
  "\<exists>l. wmm_fit_run example_env \<lparr>rng_state = 0, entropy_reads = 0\<rparr> (Array2 2 [[1, 0]]) 1 1 tol
         (Some 7) (InitDict (Array2 2 [[0, 1]]) [1] [1]) 0 =
       (Some (Inr (\<lparr>st_mu = Array2 2 [[1, 0]], st_kappa = [bound (1 / 2) 1 (99 / 100)],
                    st_pi = [1], st_llh = [Fin l],
                    hist_Mu = [Array2 2 [[1, 0]]],
                    hist_Kappa = [[bound (1 / 2) 1 (99 / 100)]],
                    hist_Bounds = [[[lower_bound (1 / 2) 1 (99 / 100),
                                     bound (1 / 2) 1 (99 / 100),
                                     upper_bound (1 / 2) 1 (99 / 100)]]],
                    hist_Pi = [[1]], st_iter = Suc 0\<rparr>, 0)),
        \<lparr>rng_state = 7, entropy_reads = 0\<rparr>)"
proof -
  have init: "rng_init example_env 7 = 7" by (simp add: example_env_def)
  from em_loop_single_example [of tol] show ?thesis
    by (simp add: wmm_fit_run_def np_random_seed_def wmm_init_def Let_def init)
qed








text \<open>
  Claim C6, as stated: a call with \<open>k \<le> 0\<close> fails with a validation error before any
  iteration and before any state is changed. It fails for \<open>k = 0\<close>: the call below
  reseeds the global generator, runs the loop up to the cap and returns empty parameter
  arrays with the log-likelihood history \<open>-inf, -inf\<close>.
\<close>

theorem wmm_fit_zero_components_counterexample:
  "wmm_fit example_env \<lparr>rng_state = 0, entropy_reads = 0\<rparr> (Array2 3 [[0, 0, 1]]) 0 2
     (1 / 10 ^ 4) None InitNone False 0 =
   (Some (Inr (Final (Array2 3 []) [] [] [NInf, NInf] [])), \<lparr>rng_state = 0, entropy_reads = 1\<rparr>)"
  using wmm_fit_run_k0 [of "1 / 10 ^ 4"] by (simp add: wmm_fit_def st_k0_def)

lemma em_loop_negative_k:
  "k < 0 \<Longrightarrow> em_loop env X k N p gamma maxiter tol st = Some (Inl ValueError)"
  by (subst em_loop.simps) (simp add: em_iteration_def e_step_def)

lemma wmm_init_negative_k:
  assumes "k < 0" "\<forall>mu kappa pw. init \<noteq> InitDict mu kappa pw"
  shows "\<exists>e. wmm_init env w1 k p init = (Inl e, w1)"
  using assms
  by (cases init) (simp_all add: wmm_init_def golden_spiral_init_def random_init_def)

text \<open>
  Claim C6, amended. A call with \<open>k < 0\<close> fails with an error. When the seed is accepted
  and \<^verbatim>\<open>init\<close> is not a dictionary, the error is the initialiser's (NumPy's refusal of
  a negative dimension, or the assertion of the spiral strategy), raised before any
  iteration begins; the only change of state is that the global generator has been
  reseeded.
\<close>

theorem wmm_fit_negative_k:
  assumes "k < 0"
  shows "(\<exists>e w'. wmm_fit env w X k maxiter tol seed init return_steps gamma = (Some (Inl e), w')) \<and>
         (\<forall>w1. np_random_seed env seed w = Inr w1 \<and> (\<forall>mu kappa pw. init \<noteq> InitDict mu kappa pw) \<longrightarrow>
            (\<exists>e. wmm_init env w1 k (ncols X) init = (Inl e, w1) \<and>
                 wmm_fit env w X k maxiter tol seed init return_steps gamma = (Some (Inl e), w1)))"
proof -
  have fails: "\<exists>e w'. wmm_fit env w X k maxiter tol seed init return_steps gamma = (Some (Inl e), w')"
    unfolding wmm_fit_def wmm_fit_run_def Let_def
    by (auto simp: em_loop_negative_k [OF assms] split: sum.splits prod.splits)
  have early: "\<exists>e. wmm_init env w1 k (ncols X) init = (Inl e, w1) \<and>
                 wmm_fit env w X k maxiter tol seed init return_steps gamma = (Some (Inl e), w1)"
    if seed: "np_random_seed env seed w = Inr w1"
      and nd: "\<forall>mu kappa pw. init \<noteq> InitDict mu kappa pw" for w1
  proof -
    from wmm_init_negative_k [OF assms nd]
    obtain e where e: "wmm_init env w1 k (ncols X) init = (Inl e, w1)" by blast
    then have "wmm_fit env w X k maxiter tol seed init return_steps gamma = (Some (Inl e), w1)"
      using seed by (simp add: wmm_fit_def wmm_fit_run_def Let_def)
    with e show ?thesis by blast
  qed
  from fails early show ?thesis by blast
qed

theorem wmm_fit_negative_k_witness:
  "wmm_init example_env \<lparr>rng_state = 0, entropy_reads = 1\<rparr> (- 1) 3 InitNone =
     (Inl ValueError, \<lparr>rng_state = 0, entropy_reads = 1\<rparr>) \<and>
   wmm_fit example_env \<lparr>rng_state = 0, entropy_reads = 0\<rparr> (Array2 3 [[0, 0, 1]]) (- 1) 200
     (1 / 10 ^ 4) None InitNone False 0 =
     (Some (Inl ValueError), \<lparr>rng_state = 0, entropy_reads = 1\<rparr>)"
  using wmm_fit_negative_k [of "- 1" example_env "\<lparr>rng_state = 0, entropy_reads = 0\<rparr>"
      "Array2 3 [[0, 0, 1]]" 200 "1 / 10 ^ 4" None InitNone False 0]
  by (simp add: np_random_seed_def example_env_def wmm_init_def golden_spiral_init_def)

lemma random_init_rng_only:
  assumes "rng_state w1 = rng_state w2"
  shows "fst (random_init env w1 k p) = fst (random_init env w2 k p) \<and>
         rng_state (snd (random_init env w1 k p)) = rng_state (snd (random_init env w2 k p))"
  using assms by (simp add: random_init_def Let_def split: prod.splits)

lemma wmm_init_rng_only:
  assumes "rng_state w1 = rng_state w2"
  shows "fst (wmm_init env w1 k p init) = fst (wmm_init env w2 k p init) \<and>
         rng_state (snd (wmm_init env w1 k p init)) = rng_state (snd (wmm_init env w2 k p init))"
  using assms random_init_rng_only [OF assms, of env k p]
  by (cases init) (simp_all add: wmm_init_def)

lemma wmm_fit_run_seeded:
  "fst (wmm_fit_run env w1 X k maxiter tol (Some s) init gamma) =
     fst (wmm_fit_run env w2 X k maxiter tol (Some s) init gamma)"
proof (cases "0 \<le> s \<and> s < 2 ^ 32")
  case False
  then show ?thesis by (auto simp add: wmm_fit_run_def np_random_seed_def)
next
  case True
  let ?a = "w1\<lparr>rng_state := rng_init env s\<rparr>" and ?b = "w2\<lparr>rng_state := rng_init env s\<rparr>"
  have "rng_state ?a = rng_state ?b" by simp
  from wmm_init_rng_only [OF this, of env k "ncols X" init]
  have i: "fst (wmm_init env ?a k (ncols X) init) = fst (wmm_init env ?b k (ncols X) init)"
    by simp
  obtain ra wa where a: "wmm_init env ?a k (ncols X) init = (ra, wa)"
    by (cases "wmm_init env ?a k (ncols X) init")
  obtain rb wb where b: "wmm_init env ?b k (ncols X) init = (rb, wb)"
    by (cases "wmm_init env ?b k (ncols X) init")
  from i a b have "ra = rb" by simp
  with True a b show ?thesis
    by (simp add: wmm_fit_run_def np_random_seed_def Let_def split: sum.splits prod.splits)
qed

text \<open>
  Claim C9. Two calls with the same observations, the same \<open>k\<close>, the same options, the same
  integer seed and \<^verbatim>\<open>init="random"\<close> return the same result (all means,
  concentrations, mixing weights, bound triples and log-likelihoods of every kept
  iteration), whatever the state of the global generator and of the entropy source
  before each call.
\<close>

theorem wmm_fit_seed_reproducible:
  "fst (wmm_fit env w1 X k maxiter tol (Some s) (InitStr ''random'') return_steps gamma) =
   fst (wmm_fit env w2 X k maxiter tol (Some s) (InitStr ''random'') return_steps gamma)"
proof -
  let ?i = "InitStr ''random''"
  obtain oa wa where a: "wmm_fit_run env w1 X k maxiter tol (Some s) ?i gamma = (oa, wa)"
    by (cases "wmm_fit_run env w1 X k maxiter tol (Some s) ?i gamma")
  obtain ob wb where b: "wmm_fit_run env w2 X k maxiter tol (Some s) ?i gamma = (ob, wb)"
    by (cases "wmm_fit_run env w2 X k maxiter tol (Some s) ?i gamma")
  from wmm_fit_run_seeded [of env w1 X k maxiter tol s ?i gamma w2] a b
  have "oa = ob" by simp
  with a b show ?thesis
    by (simp add: wmm_fit_def Let_def split: option.splits sum.splits prod.splits)
qed

theorem wmm_fit_seed_reproducible_witness:
  "fst (wmm_fit example_env \<lparr>rng_state = 0, entropy_reads = 0\<rparr> (Array2 2 [[1, 0], [0, 1]]) 2
          200 (1 / 10 ^ 4) (Some 7) (InitStr ''random'') True 0) =
   fst (wmm_fit example_env \<lparr>rng_state = 12345, entropy_reads = 3\<rparr> (Array2 2 [[1, 0], [0, 1]]) 2
          200 (1 / 10 ^ 4) (Some 7) (InitStr ''random'') True 0)"
  by (rule wmm_fit_seed_reproducible)

end
